theory Spec2Isabelle
  imports Complex_Main
begin

section \<open>Values crossing the native boundary\<close>

text \<open>
  A JavaScript \<open>number\<close> is an IEEE double: a finite value, one of the two infinities, or
  NaN. Every finite double denotes a real number and the comparison of two finite doubles
  is the comparison of the reals they denote, so finite values are modelled as reals (a
  superset of the doubles; the constants \<open>-180, -90, 90, 180\<close> of the source are doubles).
\<close>

datatype number = Num real | NaN | PosInfinity | NegInfinity

text \<open>The operator \<open>a < b\<close> of the language: false as soon as one operand is NaN.\<close>

fun js_less :: "number \<Rightarrow> number \<Rightarrow> bool" where
  "js_less NaN _ = False"
| "js_less _ NaN = False"
| "js_less (Num a) (Num b) = (a < b)"
| "js_less (Num _) PosInfinity = True"
| "js_less (Num _) NegInfinity = False"
| "js_less PosInfinity _ = False"
| "js_less NegInfinity NegInfinity = False"
| "js_less NegInfinity _ = True"

text \<open>\<open>a > b\<close> is \<open>b < a\<close>.\<close>

definition js_greater :: "number \<Rightarrow> number \<Rightarrow> bool" where
  "js_greater a b = js_less b a"

text \<open>
  \<open>class CoordinatesValidationError extends Error {}\<close>: an error value is an \<open>Error\<close>
  or the subclass, each with its message, or the \<open>TypeError\<close> the runtime raises when
  something that is no function is called (its message is the engine's and is left out).
\<close>

datatype error = Error string | CoordinatesValidationError string | TypeError

text \<open>
  The values handed over by the native layer and held by promises. \<open>NativeObject n\<close> is a
  reference to an object owned by the native plugin (such as the SDK instance of type
  \<open>HyperTrackCordova\<close>). \<open>class HyperTrack\<close> has the single private field
  \<open>cordovaInstanceHandle\<close>, assigned by its constructor
  (\<open>private constructor(private cordovaInstanceHandle: HyperTrackCordova) {}\<close>).
\<close>

datatype jsval =
    Undefined
  | Bool bool
  | Str string
  | Obj "(string \<times> jsval) list"
  | ErrorObj error
  | NativeObject nat
  | Instance HyperTrack
and HyperTrack = HyperTrack (cordovaInstanceHandle: jsval)

text \<open>A call either returns a value or throws one.\<close>

datatype 'a completion = Normal 'a | Abrupt jsval

text \<open>
  \<open>class Coordinates\<close> declares no field and its constructor assigns none (its parameters
  are plain parameters, not parameter properties): an instance carries no data.
\<close>

datatype Coordinates = Coordinates

subsection \<open>The Coordinates constructor\<close>

text \<open>A constructor either throws (\<open>Inl\<close>) or returns the new object (\<open>Inr\<close>).\<close>

definition new_Coordinates :: "number \<Rightarrow> number \<Rightarrow> error + Coordinates" where
  "new_Coordinates latitude longitude =
     (if js_less latitude (Num (- 90)) \<or> js_greater latitude (Num 90)
         \<or> js_less longitude (Num (- 180)) \<or> js_greater longitude (Num 180)
      then Inl (CoordinatesValidationError ''latitude and longitude should be of correct valaues'')
      else Inr Coordinates)"

section \<open>The native layer, promises and observables\<close>

text \<open>
  The calls the wrapper can make into the native layer: the three decorated stubs of
  \<open>HyperTrackPlugin\<close> and the eighteen methods of the interface \<open>HyperTrackCordova\<close>,
  each with the arguments it is given (the callback pair apart).
\<close>

datatype plugin_call =
    Plugin_initialize string
  | Plugin_getBlockers
  | Plugin_enableDebugLogging

datatype cordova_call =
    Cordova_getDeviceId
  | Cordova_isRunning
  | Cordova_isTracking
  | Cordova_setDeviceName string
  | Cordova_setDeviceMetadata jsval
  | Cordova_setTrackingNotificationProperties string string
  | Cordova_addGeoTag jsval "Coordinates option"
  | Cordova_requestPermissionsIfNecessary
  | Cordova_allowMockLocations
  | Cordova_syncDeviceSettings
  | Cordova_start
  | Cordova_stop
  | Cordova_setAvailability bool
  | Cordova_getAvailability
  | Cordova_trackingStateChange
  | Cordova_disposeTrackingState
  | Cordova_availabilityStateChange
  | Cordova_disposeAvailabilityState

text \<open>A native call is made on a fresh plugin object or on a receiver object.\<close>

datatype native_call = OnPlugin plugin_call | OnHandle jsval cordova_call

type_synonym ref = nat

text \<open>
  The callbacks the source writes, as closures over the promise or observer they act on:
  \<^item> \<open>ResolveWith p\<close> is \<open>(x) => resolve(x)\<close>;
  \<^item> \<open>ResolveVoid p\<close> is \<open>() => resolve()\<close>, which ignores what it is called with;
  \<^item> \<open>RejectWith p\<close> is \<open>(err) => reject(err)\<close>;
  \<^item> \<open>ResolveNewHyperTrack p\<close> is
    \<open>(cordovaInstance) => { resolve(new HyperTrack(cordovaInstance)) }\<close>;
  \<^item> \<open>ObserverNext s\<close> is \<open>(res) => { observer.next(res) }\<close>;
  \<^item> \<open>ObserverError s\<close> is \<open>(err) => { observer.error(err) }\<close>.
\<close>

datatype callback =
    ResolveWith ref
  | ResolveVoid ref
  | RejectWith ref
  | ResolveNewHyperTrack ref
  | ObserverNext ref
  | ObserverError ref

datatype promise_state = Pending | Fulfilled jsval | Rejected jsval

text \<open>
  The function given to \<open>new Observable\<close>. Both in the source have the same shape,
  \<open>(observer) => { handle.m((res) => { observer.next(res) }, (err) => { observer.error(err) }) }\<close>,
  and differ in the receiver and the method only.
\<close>

datatype subscribe_fn = Listen jsval cordova_call

text \<open>
  The objects of the store: a promise with its state and the reactions registered while it
  was pending (a fulfilment and a rejection handler each); a cold observable; a subscriber
  of an observable with the values delivered to it so far, in order, and the error that
  ended it, if one did.
\<close>

datatype cell =
    Promise promise_state "(callback \<times> callback) list"
  | Observable subscribe_fn
  | Subscriber "jsval list" "jsval option"

text \<open>A call that reached the native layer, with the callback pair it was given.\<close>

record invocation =
  call :: native_call
  success_cb :: callback
  error_cb :: callback

text \<open>
  The world: the store of promises, observables and subscribers (a reference is an index),
  the native calls made so far in order, the queue of pending reaction jobs, and the
  synchronous behaviour of the native layer: \<open>native_sync w h m\<close> is what the method \<open>m\<close>
  of the native object \<open>h\<close> throws when it is called (because the object lacks the method,
  or because the method throws), \<open>None\<close> when the call returns.
\<close>

record world =
  store :: "cell list"
  invocations :: "invocation list"
  jobs :: "(callback \<times> jsval) list"
  native_sync :: "jsval \<Rightarrow> cordova_call \<Rightarrow> jsval option"


text \<open>The empty world over a native layer whose methods all return.\<close>

definition empty_world :: world where
  "empty_world = \<lparr>store = [], invocations = [], jobs = [], native_sync = (\<lambda>h m. None)\<rparr>"

definition lookup :: "ref \<Rightarrow> world \<Rightarrow> cell option" where
  "lookup r w = (if r < length (store w) then Some (store w ! r) else None)"

definition alloc :: "cell \<Rightarrow> world \<Rightarrow> ref \<times> world" where
  "alloc c w = (length (store w), w\<lparr>store := store w @ [c]\<rparr>)"

subsection \<open>Promises\<close>

text \<open>
  \<open>resolve\<close> and \<open>reject\<close> act on a pending promise only: they settle it and queue its
  reactions as jobs. On a settled promise (or a reference that is no promise) they do
  nothing. The values of this model are data, none of them is a promise or another
  thenable, so resolving a promise with a value fulfils it with that value.
\<close>

definition resolve :: "ref \<Rightarrow> jsval \<Rightarrow> world \<Rightarrow> world" where
  "resolve p v w =
     (case lookup p w of
        Some (Promise Pending rs) \<Rightarrow>
          w\<lparr>store := (store w)[p := Promise (Fulfilled v) []],
            jobs := jobs w @ map (\<lambda>r. (fst r, v)) rs\<rparr>
      | _ \<Rightarrow> w)"

definition reject :: "ref \<Rightarrow> jsval \<Rightarrow> world \<Rightarrow> world" where
  "reject p e w =
     (case lookup p w of
        Some (Promise Pending rs) \<Rightarrow>
          w\<lparr>store := (store w)[p := Promise (Rejected e) []],
            jobs := jobs w @ map (\<lambda>r. (snd r, e)) rs\<rparr>
      | _ \<Rightarrow> w)"

subsection \<open>Subscribers\<close>

text \<open>
  \<open>observer.next\<close> delivers a value to a subscriber that has not ended;
  \<open>observer.error\<close> ends it with the error. Both are ignored afterwards.
\<close>

definition observer_next :: "ref \<Rightarrow> jsval \<Rightarrow> world \<Rightarrow> world" where
  "observer_next s v w =
     (case lookup s w of
        Some (Subscriber vs None) \<Rightarrow> w\<lparr>store := (store w)[s := Subscriber (vs @ [v]) None]\<rparr>
      | _ \<Rightarrow> w)"

definition observer_error :: "ref \<Rightarrow> jsval \<Rightarrow> world \<Rightarrow> world" where
  "observer_error s e w =
     (case lookup s w of
        Some (Subscriber vs None) \<Rightarrow> w\<lparr>store := (store w)[s := Subscriber vs (Some e)]\<rparr>
      | _ \<Rightarrow> w)"

subsection \<open>Running a callback, and the job queue\<close>

fun apply_callback :: "callback \<Rightarrow> jsval \<Rightarrow> world \<Rightarrow> world" where
  "apply_callback (ResolveWith p) x w = resolve p x w"
| "apply_callback (ResolveVoid p) x w = resolve p Undefined w"
| "apply_callback (RejectWith p) err w = reject p err w"
| "apply_callback (ResolveNewHyperTrack p) cordovaInstance w =
     resolve p (Instance (HyperTrack cordovaInstance)) w"
| "apply_callback (ObserverNext s) res w = observer_next s res w"
| "apply_callback (ObserverError s) err w = observer_error s err w"

fun is_pending :: "cell \<Rightarrow> bool" where
  "is_pending (Promise Pending _) = True"
| "is_pending _ = False"

definition pending_count :: "world \<Rightarrow> nat" where
  "pending_count w = length (filter is_pending (store w))"

text \<open>
  Settling a pending promise lowers the number of pending promises; every other callback
  leaves that number and the job queue as they are. This is the measure that ends the
  job loop.
\<close>

lemma pending_update_less:
  "i < length xs \<Longrightarrow> is_pending (xs ! i) \<Longrightarrow> \<not> is_pending c \<Longrightarrow>
   length (filter is_pending (xs[i := c])) < length (filter is_pending xs)"
proof (induction xs arbitrary: i)
  case Nil
  then show ?case by simp
next
  case (Cons x xs)
  show ?case
  proof (cases i)
    case 0
    with Cons.prems show ?thesis by simp
  next
    case (Suc k)
    with Cons.prems have "length (filter is_pending (xs[k := c])) < length (filter is_pending xs)"
      by (intro Cons.IH) simp_all
    with Suc show ?thesis by simp
  qed
qed

lemma pending_update_same:
  "i < length xs \<Longrightarrow> \<not> is_pending (xs ! i) \<Longrightarrow> \<not> is_pending c \<Longrightarrow>
   length (filter is_pending (xs[i := c])) = length (filter is_pending xs)"
proof (induction xs arbitrary: i)
  case Nil
  then show ?case by simp
next
  case (Cons x xs)
  show ?case
  proof (cases i)
    case 0
    with Cons.prems show ?thesis by simp
  next
    case (Suc k)
    with Cons.prems have "length (filter is_pending (xs[k := c])) = length (filter is_pending xs)"
      by (intro Cons.IH) simp_all
    with Suc show ?thesis by simp
  qed
qed

lemma resolve_measure:
  "pending_count (resolve p v w) < pending_count w \<or> resolve p v w = w"
  by (auto simp: resolve_def pending_count_def lookup_def pending_update_less
           split: option.splits cell.splits promise_state.splits if_splits)

lemma reject_measure:
  "pending_count (reject p e w) < pending_count w \<or> reject p e w = w"
  by (auto simp: reject_def pending_count_def lookup_def pending_update_less
           split: option.splits cell.splits promise_state.splits if_splits)

lemma observer_next_measure:
  "pending_count (observer_next s v w) = pending_count w \<and> jobs (observer_next s v w) = jobs w"
  by (auto simp: observer_next_def pending_count_def lookup_def pending_update_same
           split: option.splits cell.splits if_splits)

lemma observer_error_measure:
  "pending_count (observer_error s e w) = pending_count w \<and> jobs (observer_error s e w) = jobs w"
  by (auto simp: observer_error_def pending_count_def lookup_def pending_update_same
           split: option.splits cell.splits if_splits)

lemma apply_callback_measure:
  "pending_count (apply_callback cb v w) < pending_count w
   \<or> (pending_count (apply_callback cb v w) = pending_count w
      \<and> jobs (apply_callback cb v w) = jobs w)"
proof (cases cb)
  case (ResolveWith p)
  with resolve_measure [of p v w] show ?thesis by auto
next
  case (ResolveVoid p)
  with resolve_measure [of p Undefined w] show ?thesis by auto
next
  case (RejectWith p)
  with reject_measure [of p v w] show ?thesis by auto
next
  case (ResolveNewHyperTrack p)
  with resolve_measure [of p "Instance (HyperTrack v)" w] show ?thesis by auto
next
  case (ObserverNext s)
  with observer_next_measure [of s v w] show ?thesis by simp
next
  case (ObserverError s)
  with observer_error_measure [of s v w] show ?thesis by simp
qed

text \<open>
  The job loop of the host: after a task, the queued reactions run one by one, in order,
  until none is left; a reaction may queue further ones.
\<close>

function drain :: "world \<Rightarrow> world" where
  "drain w =
     (case jobs w of
        [] \<Rightarrow> w
      | job # js \<Rightarrow> drain (apply_callback (fst job) (snd job) (w\<lparr>jobs := js\<rparr>)))"
  by pat_completeness auto
termination
proof (relation "measures [pending_count, \<lambda>w. length (jobs w)]")
  show "wf (measures [pending_count, \<lambda>w. length (jobs w)])" by simp
next
  fix w :: world and job js
  assume j: "jobs w = job # js"
  have pc: "pending_count (w\<lparr>jobs := js\<rparr>) = pending_count w"
    by (simp add: pending_count_def)
  from apply_callback_measure [of "fst job" "snd job" "w\<lparr>jobs := js\<rparr>"] pc j
  show "(apply_callback (fst job) (snd job) (w\<lparr>jobs := js\<rparr>), w)
          \<in> measures [pending_count, \<lambda>w. length (jobs w)]"
    by auto
qed

declare drain.simps [simp del]

subsection \<open>Creating promises and observables, calling the native layer\<close>

text \<open>
  The receivers that can have methods at all. \<open>undefined\<close>, a boolean, a string, an error
  object and a data object (whose fields are values, never functions) have none of the
  methods of \<open>HyperTrackCordova\<close>: the call \<open>h.m(...)\<close> on one of them is a \<open>TypeError\<close> of
  the runtime. What the call of a method of a native object does synchronously is the
  native layer's. (A facade instance is never a handle: the constructor of \<open>HyperTrack\<close> is
  private and \<open>initialize\<close> wraps a value that came from the native layer; such a receiver
  is treated like a native object.)
\<close>

fun has_methods :: "jsval \<Rightarrow> bool" where
  "has_methods (NativeObject n) = True"
| "has_methods (Instance i) = True"
| "has_methods _ = False"

text \<open>
  What a native call throws synchronously, if it throws. The calls of the plugin stubs
  return (see \<open>HyperTrackPlugin_stub\<close>).
\<close>

definition call_throws :: "native_call \<Rightarrow> world \<Rightarrow> jsval option" where
  "call_throws c w =
     (case c of
        OnPlugin pc \<Rightarrow> None
      | OnHandle h m \<Rightarrow> if has_methods h then native_sync w h m else Some (ErrorObj TypeError))"

text \<open>
  A native call that throws leaves the world as it is. One that returns is recorded with
  its callback pair; the native layer answers later, by invoking one of the two callbacks
  (see \<open>native_fires\<close>).
\<close>

definition native_invoke ::
  "native_call \<Rightarrow> callback \<Rightarrow> callback \<Rightarrow> world \<Rightarrow> unit completion \<times> world" where
  "native_invoke c success error w =
     (case call_throws c w of
        Some e \<Rightarrow> (Abrupt e, w)
      | None \<Rightarrow>
          (Normal (),
           w\<lparr>invocations := invocations w @
                [\<lparr>call = c, success_cb = success, error_cb = error\<rparr>]\<rparr>))"

text \<open>
  \<open>new Promise(executor)\<close> creates a pending promise and runs the executor at once; what
  the executor throws rejects the promise. The constructor itself returns.
\<close>

definition new_Promise ::
  "(ref \<Rightarrow> world \<Rightarrow> unit completion \<times> world) \<Rightarrow> world \<Rightarrow> ref completion \<times> world" where
  "new_Promise executor w =
     (let (p, w1) = alloc (Promise Pending []) w in
      case executor p w1 of
        (Normal u, w2) \<Rightarrow> (Normal p, w2)
      | (Abrupt e, w2) \<Rightarrow> (Normal p, reject p e w2))"

text \<open>
  \<open>q.then(f).catch(g)\<close> where \<open>f\<close> cannot throw: \<open>f\<close> runs with the value once \<open>q\<close> is
  fulfilled, \<open>g\<close> with the error once \<open>q\<close> is rejected (the rejection passes through
  \<open>then\<close>). On a settled promise the handler is queued at once.
\<close>

definition then_catch :: "ref \<Rightarrow> callback \<Rightarrow> callback \<Rightarrow> world \<Rightarrow> world" where
  "then_catch q f g w =
     (case lookup q w of
        Some (Promise Pending rs) \<Rightarrow> w\<lparr>store := (store w)[q := Promise Pending (rs @ [(f, g)])]\<rparr>
      | Some (Promise (Fulfilled v) rs) \<Rightarrow> w\<lparr>jobs := jobs w @ [(f, v)]\<rparr>
      | Some (Promise (Rejected e) rs) \<Rightarrow> w\<lparr>jobs := jobs w @ [(g, e)]\<rparr>
      | _ \<Rightarrow> w)"

text \<open>\<open>new Observable(f)\<close> stores \<open>f\<close>; nothing runs before a subscription.\<close>

definition new_Observable :: "subscribe_fn \<Rightarrow> world \<Rightarrow> ref completion \<times> world" where
  "new_Observable f w = (let (x, w1) = alloc (Observable f) w in (Normal x, w1))"

text \<open>
  \<open>observable.subscribe(...)\<close> creates a subscriber and runs the stored function on it:
  the native method is called with the two observer callbacks. What the function throws
  is delivered to the subscriber as its error.
\<close>

definition subscribe :: "ref \<Rightarrow> world \<Rightarrow> ref option \<times> world" where
  "subscribe obs w =
     (case lookup obs w of
        Some (Observable (Listen h m)) \<Rightarrow>
          (let (s, w1) = alloc (Subscriber [] None) w in
           case native_invoke (OnHandle h m) (ObserverNext s) (ObserverError s) w1 of
             (Normal u, w2) \<Rightarrow> (Some s, w2)
           | (Abrupt e, w2) \<Rightarrow> (Some s, observer_error s e w2))
      | _ \<Rightarrow> (None, w))"

text \<open>
  The native layer answers its \<open>i\<close>-th call by invoking the success or the failure
  callback it was given with a value; the queued reactions run afterwards.
\<close>

datatype native_event = Success jsval | Failure jsval

definition native_fires :: "nat \<Rightarrow> native_event \<Rightarrow> world \<Rightarrow> world" where
  "native_fires i ev w =
     (if i < length (invocations w)
      then drain (case ev of
                    Success v \<Rightarrow> apply_callback (success_cb (invocations w ! i)) v w
                  | Failure e \<Rightarrow> apply_callback (error_cb (invocations w ! i)) e w)
      else w)"

fun native_fires_all :: "nat \<Rightarrow> native_event list \<Rightarrow> world \<Rightarrow> world" where
  "native_fires_all i [] w = w"
| "native_fires_all i (ev # evs) w = native_fires_all i evs (native_fires i ev w)"

section \<open>The plugin stubs\<close>

text \<open>
  Modelled from the spec: the \<open>@Cordova()\<close> decorator of the core package, which is not
  among the sources. A decorated stub of \<open>HyperTrackPlugin\<close> forwards its arguments
  unchanged to the native layer and returns a promise that surfaces what the native layer
  returns: resolved with the value of the success callback, rejected with the value of the
  failure callback. The stub itself returns.
\<close>

definition HyperTrackPlugin_stub :: "plugin_call \<Rightarrow> world \<Rightarrow> ref completion \<times> world" where
  "HyperTrackPlugin_stub c =
     new_Promise (\<lambda>q. native_invoke (OnPlugin c) (ResolveWith q) (RejectWith q))"

section \<open>The HyperTrack facade\<close>

subsection \<open>Static operations\<close>

text \<open>\<open>enableDebugLogging(): void\<close> calls the stub and drops the promise it returns.\<close>

definition enableDebugLogging :: "world \<Rightarrow> unit completion \<times> world" where
  "enableDebugLogging w =
     (case HyperTrackPlugin_stub Plugin_enableDebugLogging w of
        (Normal q, w1) \<Rightarrow> (Normal (), w1)
      | (Abrupt e, w1) \<Rightarrow> (Abrupt e, w1))"

definition initialize :: "string \<Rightarrow> world \<Rightarrow> ref completion \<times> world" where
  "initialize publishableKey =
     new_Promise (\<lambda>p w.
       case HyperTrackPlugin_stub (Plugin_initialize publishableKey) w of
         (Normal q, w1) \<Rightarrow> (Normal (), then_catch q (ResolveNewHyperTrack p) (RejectWith p) w1)
       | (Abrupt e, w1) \<Rightarrow> (Abrupt e, w1))"

definition getBlockers :: "world \<Rightarrow> ref completion \<times> world" where
  "getBlockers = HyperTrackPlugin_stub Plugin_getBlockers"

subsection \<open>Instance operations\<close>

definition getDeviceId :: "HyperTrack \<Rightarrow> world \<Rightarrow> ref completion \<times> world" where
  "getDeviceId this =
     new_Promise (\<lambda>p. native_invoke (OnHandle (cordovaInstanceHandle this) Cordova_getDeviceId)
                        (ResolveWith p) (RejectWith p))"

definition isRunning :: "HyperTrack \<Rightarrow> world \<Rightarrow> ref completion \<times> world" where
  "isRunning this =
     new_Promise (\<lambda>p. native_invoke (OnHandle (cordovaInstanceHandle this) Cordova_isRunning)
                        (ResolveWith p) (RejectWith p))"

definition isTracking :: "HyperTrack \<Rightarrow> world \<Rightarrow> ref completion \<times> world" where
  "isTracking this =
     new_Promise (\<lambda>p. native_invoke (OnHandle (cordovaInstanceHandle this) Cordova_isTracking)
                        (ResolveWith p) (RejectWith p))"

definition setDeviceName :: "HyperTrack \<Rightarrow> string \<Rightarrow> world \<Rightarrow> ref completion \<times> world" where
  "setDeviceName this name =
     new_Promise (\<lambda>p. native_invoke
                        (OnHandle (cordovaInstanceHandle this) (Cordova_setDeviceName name))
                        (ResolveVoid p) (RejectWith p))"

definition setDeviceMetadata :: "HyperTrack \<Rightarrow> jsval \<Rightarrow> world \<Rightarrow> ref completion \<times> world" where
  "setDeviceMetadata this metadata =
     new_Promise (\<lambda>p. native_invoke
                        (OnHandle (cordovaInstanceHandle this) (Cordova_setDeviceMetadata metadata))
                        (ResolveVoid p) (RejectWith p))"

definition setTrackingNotificationProperties ::
  "HyperTrack \<Rightarrow> string \<Rightarrow> string \<Rightarrow> world \<Rightarrow> ref completion \<times> world" where
  "setTrackingNotificationProperties this title message =
     new_Promise (\<lambda>p. native_invoke
                        (OnHandle (cordovaInstanceHandle this)
                           (Cordova_setTrackingNotificationProperties title message))
                        (ResolveVoid p) (RejectWith p))"

definition addGeotag :: "HyperTrack \<Rightarrow> jsval \<Rightarrow> Coordinates option \<Rightarrow> world \<Rightarrow> ref completion \<times> world" where
  "addGeotag this geotagData expectedLocation =
     new_Promise (\<lambda>p. native_invoke
                        (OnHandle (cordovaInstanceHandle this)
                           (Cordova_addGeoTag geotagData expectedLocation))
                        (ResolveVoid p) (RejectWith p))"

definition requestPermissionsIfNecessary :: "HyperTrack \<Rightarrow> world \<Rightarrow> ref completion \<times> world" where
  "requestPermissionsIfNecessary this =
     new_Promise (\<lambda>p. native_invoke
                        (OnHandle (cordovaInstanceHandle this) Cordova_requestPermissionsIfNecessary)
                        (ResolveVoid p) (RejectWith p))"

definition allowMockLocations :: "HyperTrack \<Rightarrow> world \<Rightarrow> ref completion \<times> world" where
  "allowMockLocations this =
     new_Promise (\<lambda>p. native_invoke
                        (OnHandle (cordovaInstanceHandle this) Cordova_allowMockLocations)
                        (ResolveVoid p) (RejectWith p))"

definition syncDeviceSettings :: "HyperTrack \<Rightarrow> world \<Rightarrow> ref completion \<times> world" where
  "syncDeviceSettings this =
     new_Promise (\<lambda>p. native_invoke
                        (OnHandle (cordovaInstanceHandle this) Cordova_syncDeviceSettings)
                        (ResolveVoid p) (RejectWith p))"

definition start :: "HyperTrack \<Rightarrow> world \<Rightarrow> ref completion \<times> world" where
  "start this =
     new_Promise (\<lambda>p. native_invoke (OnHandle (cordovaInstanceHandle this) Cordova_start)
                        (ResolveVoid p) (RejectWith p))"

definition stop :: "HyperTrack \<Rightarrow> world \<Rightarrow> ref completion \<times> world" where
  "stop this =
     new_Promise (\<lambda>p. native_invoke (OnHandle (cordovaInstanceHandle this) Cordova_stop)
                        (ResolveVoid p) (RejectWith p))"

definition setAvailability :: "HyperTrack \<Rightarrow> bool \<Rightarrow> world \<Rightarrow> ref completion \<times> world" where
  "setAvailability this isAvailable =
     new_Promise (\<lambda>p. native_invoke
                        (OnHandle (cordovaInstanceHandle this) (Cordova_setAvailability isAvailable))
                        (ResolveVoid p) (RejectWith p))"

definition getAvailability :: "HyperTrack \<Rightarrow> world \<Rightarrow> ref completion \<times> world" where
  "getAvailability this =
     new_Promise (\<lambda>p. native_invoke (OnHandle (cordovaInstanceHandle this) Cordova_getAvailability)
                        (ResolveWith p) (RejectWith p))"

definition trackingStateChange :: "HyperTrack \<Rightarrow> world \<Rightarrow> ref completion \<times> world" where
  "trackingStateChange this =
     new_Observable (Listen (cordovaInstanceHandle this) Cordova_trackingStateChange)"

definition disposeTrackingState :: "HyperTrack \<Rightarrow> world \<Rightarrow> ref completion \<times> world" where
  "disposeTrackingState this =
     new_Promise (\<lambda>p. native_invoke
                        (OnHandle (cordovaInstanceHandle this) Cordova_disposeTrackingState)
                        (ResolveVoid p) (RejectWith p))"

definition availabilityStateChange :: "HyperTrack \<Rightarrow> world \<Rightarrow> ref completion \<times> world" where
  "availabilityStateChange this =
     new_Observable (Listen (cordovaInstanceHandle this) Cordova_availabilityStateChange)"

definition disposeAvailabilityState :: "HyperTrack \<Rightarrow> world \<Rightarrow> ref completion \<times> world" where
  "disposeAvailabilityState this =
     new_Promise (\<lambda>p. native_invoke
                        (OnHandle (cordovaInstanceHandle this) Cordova_disposeAvailabilityState)
                        (ResolveVoid p) (RejectWith p))"

subsection \<open>Calling an instance operation by name\<close>

text \<open>
  The eighteen instance operations of the facade with their arguments, and the call of one
  of them on an instance.
\<close>

datatype request =
    GetDeviceId
  | IsRunning
  | IsTracking
  | SetDeviceName string
  | SetDeviceMetadata jsval
  | SetTrackingNotificationProperties string string
  | AddGeotag jsval "Coordinates option"
  | RequestPermissionsIfNecessary
  | AllowMockLocations
  | SyncDeviceSettings
  | Start
  | Stop
  | SetAvailability bool
  | GetAvailability
  | TrackingStateChange
  | DisposeTrackingState
  | AvailabilityStateChange
  | DisposeAvailabilityState

fun call_method :: "HyperTrack \<Rightarrow> request \<Rightarrow> world \<Rightarrow> ref completion \<times> world" where
  "call_method this GetDeviceId = getDeviceId this"
| "call_method this IsRunning = isRunning this"
| "call_method this IsTracking = isTracking this"
| "call_method this (SetDeviceName name) = setDeviceName this name"
| "call_method this (SetDeviceMetadata metadata) = setDeviceMetadata this metadata"
| "call_method this (SetTrackingNotificationProperties title message) =
     setTrackingNotificationProperties this title message"
| "call_method this (AddGeotag geotagData expectedLocation) =
     addGeotag this geotagData expectedLocation"
| "call_method this RequestPermissionsIfNecessary = requestPermissionsIfNecessary this"
| "call_method this AllowMockLocations = allowMockLocations this"
| "call_method this SyncDeviceSettings = syncDeviceSettings this"
| "call_method this Start = start this"
| "call_method this Stop = stop this"
| "call_method this (SetAvailability isAvailable) = setAvailability this isAvailable"
| "call_method this GetAvailability = getAvailability this"
| "call_method this TrackingStateChange = trackingStateChange this"
| "call_method this DisposeTrackingState = disposeTrackingState this"
| "call_method this AvailabilityStateChange = availabilityStateChange this"
| "call_method this DisposeAvailabilityState = disposeAvailabilityState this"

subsection \<open>Programs over the facade\<close>

text \<open>
  What a caller can do with the wrapper: construct a coordinate pair, call a static
  operation, call an instance operation. An operation either throws synchronously or
  returns (nothing, a reference to the promise or observable it made, or the new
  object); what a call inside it throws and nothing catches, it throws.
\<close>

datatype operation =
    NewCoordinates number number
  | EnableDebugLogging
  | Initialize string
  | GetBlockers
  | Method HyperTrack request

datatype outcome = Throws jsval | ReturnsVoid | ReturnsRef ref | ReturnsCoordinates Coordinates

fun perform :: "operation \<Rightarrow> world \<Rightarrow> outcome \<times> world" where
  "perform (NewCoordinates latitude longitude) w =
     (case new_Coordinates latitude longitude of
        Inl e \<Rightarrow> (Throws (ErrorObj e), w)
      | Inr c \<Rightarrow> (ReturnsCoordinates c, w))"
| "perform EnableDebugLogging w =
     (case enableDebugLogging w of
        (Normal u, w1) \<Rightarrow> (ReturnsVoid, w1)
      | (Abrupt e, w1) \<Rightarrow> (Throws e, w1))"
| "perform (Initialize publishableKey) w =
     (case initialize publishableKey w of
        (Normal p, w1) \<Rightarrow> (ReturnsRef p, w1)
      | (Abrupt e, w1) \<Rightarrow> (Throws e, w1))"
| "perform GetBlockers w =
     (case getBlockers w of
        (Normal p, w1) \<Rightarrow> (ReturnsRef p, w1)
      | (Abrupt e, w1) \<Rightarrow> (Throws e, w1))"
| "perform (Method this r) w =
     (case call_method this r w of
        (Normal p, w1) \<Rightarrow> (ReturnsRef p, w1)
      | (Abrupt e, w1) \<Rightarrow> (Throws e, w1))"

text \<open>
  A run of the system is a sequence of steps: the application calls an operation or
  subscribes to an observable, the native layer answers one of its calls, or the native
  layer changes what its methods do when called. The queued reactions run after each
  step.
\<close>

datatype step =
    Call operation
  | Subscribe ref
  | NativeFires nat native_event
  | NativeBecomes "jsval \<Rightarrow> cordova_call \<Rightarrow> jsval option"

fun take_step :: "step \<Rightarrow> world \<Rightarrow> world" where
  "take_step (Call op) w = drain (snd (perform op w))"
| "take_step (Subscribe obs) w = drain (snd (subscribe obs w))"
| "take_step (NativeFires i ev) w = native_fires i ev w"
| "take_step (NativeBecomes f) w = w\<lparr>native_sync := f\<rparr>"

fun run :: "step list \<Rightarrow> world \<Rightarrow> world" where
  "run [] w = w"
| "run (a # as) w = run as (take_step a w)"

section \<open>Notions of the specification\<close>

text \<open>
  The closed interval \<open>[lo, hi]\<close> of the specification, on numbers: NaN and the
  infinities are in no such interval.
\<close>

definition spec_in_interval :: "real \<Rightarrow> real \<Rightarrow> number \<Rightarrow> bool" where
  "spec_in_interval lo hi x = (case x of Num r \<Rightarrow> lo \<le> r \<and> r \<le> hi | _ \<Rightarrow> False)"

text \<open>
  The stream-returning operations, the native method each instance operation is expected
  to forward to with its arguments unchanged, and the operations whose promise carries a
  value (their result type is not \<open>Promise<void>\<close>).
\<close>

fun spec_returns_stream :: "request \<Rightarrow> bool" where
  "spec_returns_stream TrackingStateChange = True"
| "spec_returns_stream AvailabilityStateChange = True"
| "spec_returns_stream _ = False"

fun spec_carries_value :: "request \<Rightarrow> bool" where
  "spec_carries_value GetDeviceId = True"
| "spec_carries_value IsRunning = True"
| "spec_carries_value IsTracking = True"
| "spec_carries_value GetAvailability = True"
| "spec_carries_value _ = False"

fun spec_native_call :: "request \<Rightarrow> cordova_call" where
  "spec_native_call GetDeviceId = Cordova_getDeviceId"
| "spec_native_call IsRunning = Cordova_isRunning"
| "spec_native_call IsTracking = Cordova_isTracking"
| "spec_native_call (SetDeviceName name) = Cordova_setDeviceName name"
| "spec_native_call (SetDeviceMetadata metadata) = Cordova_setDeviceMetadata metadata"
| "spec_native_call (SetTrackingNotificationProperties title message) =
     Cordova_setTrackingNotificationProperties title message"
| "spec_native_call (AddGeotag geotagData expectedLocation) =
     Cordova_addGeoTag geotagData expectedLocation"
| "spec_native_call RequestPermissionsIfNecessary = Cordova_requestPermissionsIfNecessary"
| "spec_native_call AllowMockLocations = Cordova_allowMockLocations"
| "spec_native_call SyncDeviceSettings = Cordova_syncDeviceSettings"
| "spec_native_call Start = Cordova_start"
| "spec_native_call Stop = Cordova_stop"
| "spec_native_call (SetAvailability isAvailable) = Cordova_setAvailability isAvailable"
| "spec_native_call GetAvailability = Cordova_getAvailability"
| "spec_native_call TrackingStateChange = Cordova_trackingStateChange"
| "spec_native_call DisposeTrackingState = Cordova_disposeTrackingState"
| "spec_native_call AvailabilityStateChange = Cordova_availabilityStateChange"
| "spec_native_call DisposeAvailabilityState = Cordova_disposeAvailabilityState"

text \<open>A promise is settled once it is fulfilled or rejected.\<close>

definition is_settled :: "ref \<Rightarrow> world \<Rightarrow> bool" where
  "is_settled p w = (case lookup p w of Some (Promise s rs) \<Rightarrow> s \<noteq> Pending | _ \<Rightarrow> False)"










section \<open>Basic facts\<close>

subsection \<open>The worlds the operations build\<close>

lemma drain_quiescent: "jobs w = [] \<Longrightarrow> drain w = w"
  by (simp add: drain.simps)

lemma call_throws_store [simp]: "call_throws c (w\<lparr>store := xs\<rparr>) = call_throws c w"
  by (simp add: call_throws_def split: native_call.splits)

lemma call_throws_invocations [simp]:
  "call_throws c (w\<lparr>invocations := ivs\<rparr>) = call_throws c w"
  by (simp add: call_throws_def split: native_call.splits)

lemma call_throws_jobs [simp]: "call_throws c (w\<lparr>jobs := js\<rparr>) = call_throws c w"
  by (simp add: call_throws_def split: native_call.splits)

lemma call_throws_OnPlugin [simp]: "call_throws (OnPlugin c) w = None"
  by (simp add: call_throws_def)

lemma call_throws_empty_world [simp]:
  "call_throws (OnHandle (NativeObject n) m) empty_world = None"
  by (simp add: call_throws_def empty_world_def)

lemma new_Promise_invoke:
  "call_throws c w = None \<Longrightarrow>
   new_Promise (\<lambda>p. native_invoke c (S p) (E p)) w =
     (Normal (length (store w)),
      w\<lparr>store := store w @ [Promise Pending []],
        invocations := invocations w @
          [\<lparr>call = c, success_cb = S (length (store w)), error_cb = E (length (store w))\<rparr>]\<rparr>)"
  by (simp add: new_Promise_def alloc_def native_invoke_def)

lemma new_Promise_invoke_throws:
  "call_throws c w = Some x \<Longrightarrow>
   new_Promise (\<lambda>p. native_invoke c (S p) (E p)) w =
     (Normal (length (store w)), w\<lparr>store := store w @ [Promise (Rejected x) []]\<rparr>)"
  by (simp add: new_Promise_def alloc_def native_invoke_def reject_def lookup_def)

lemmas promise_operation_defs =
  getDeviceId_def isRunning_def isTracking_def setDeviceName_def setDeviceMetadata_def
  setTrackingNotificationProperties_def addGeotag_def requestPermissionsIfNecessary_def
  allowMockLocations_def syncDeviceSettings_def start_def stop_def setAvailability_def
  getAvailability_def disposeTrackingState_def disposeAvailabilityState_def

lemma call_method_promise:
  "\<not> spec_returns_stream r \<Longrightarrow>
   call_throws (OnHandle (cordovaInstanceHandle this) (spec_native_call r)) w = None \<Longrightarrow>
   call_method this r w =
     (Normal (length (store w)),
      w\<lparr>store := store w @ [Promise Pending []],
        invocations := invocations w @
          [\<lparr>call = OnHandle (cordovaInstanceHandle this) (spec_native_call r),
            success_cb = (if spec_carries_value r then ResolveWith (length (store w))
                          else ResolveVoid (length (store w))),
            error_cb = RejectWith (length (store w))\<rparr>]\<rparr>)"
  by (cases r) (simp_all add: promise_operation_defs new_Promise_invoke)

lemma call_method_promise_throws:
  "\<not> spec_returns_stream r \<Longrightarrow>
   call_throws (OnHandle (cordovaInstanceHandle this) (spec_native_call r)) w = Some x \<Longrightarrow>
   call_method this r w =
     (Normal (length (store w)), w\<lparr>store := store w @ [Promise (Rejected x) []]\<rparr>)"
  by (cases r) (simp_all add: promise_operation_defs new_Promise_invoke_throws)

lemma call_method_stream:
  "spec_returns_stream r \<Longrightarrow>
   call_method this r w =
     (Normal (length (store w)),
      w\<lparr>store := store w @ [Observable (Listen (cordovaInstanceHandle this) (spec_native_call r))]\<rparr>)"
  by (cases r) (simp_all add: trackingStateChange_def availabilityStateChange_def new_Observable_def alloc_def)

lemma resolve_fresh:
  "jobs w = [] \<Longrightarrow>
   resolve (length xs) v (w\<lparr>store := xs @ [Promise Pending []], invocations := ivs\<rparr>)
     = w\<lparr>store := xs @ [Promise (Fulfilled v) []], invocations := ivs\<rparr>"
  by (simp add: resolve_def lookup_def)

lemma reject_fresh:
  "jobs w = [] \<Longrightarrow>
   reject (length xs) e (w\<lparr>store := xs @ [Promise Pending []], invocations := ivs\<rparr>)
     = w\<lparr>store := xs @ [Promise (Rejected e) []], invocations := ivs\<rparr>"
  by (simp add: reject_def lookup_def)

lemma native_fires_settled:
  assumes "s \<noteq> Pending" and "jobs w = []"
      and "success_cb entry \<in> {ResolveWith (length xs), ResolveVoid (length xs)}"
      and "error_cb entry = RejectWith (length xs)"
  shows "native_fires (length ivs) ev (w\<lparr>store := xs @ [Promise s rs], invocations := ivs @ [entry]\<rparr>)
           = w\<lparr>store := xs @ [Promise s rs], invocations := ivs @ [entry]\<rparr>"
  using assms
  by (cases ev; cases s)
     (auto simp: native_fires_def resolve_def reject_def lookup_def drain_quiescent)

lemma native_fires_all_settled:
  assumes "s \<noteq> Pending" and "jobs w = []"
      and "success_cb entry \<in> {ResolveWith (length xs), ResolveVoid (length xs)}"
      and "error_cb entry = RejectWith (length xs)"
  shows "native_fires_all (length ivs) evs
           (w\<lparr>store := xs @ [Promise s rs], invocations := ivs @ [entry]\<rparr>)
           = w\<lparr>store := xs @ [Promise s rs], invocations := ivs @ [entry]\<rparr>"
  by (induction evs) (simp_all add: native_fires_settled [OF assms])

lemma subscribe_observable_throws:
  "call_throws (OnHandle h m) w = Some x \<Longrightarrow>
   subscribe (length xs) (w\<lparr>store := xs @ [Observable (Listen h m)]\<rparr>) =
     (Some (Suc (length xs)),
      w\<lparr>store := xs @ [Observable (Listen h m), Subscriber [] (Some x)]\<rparr>)"
  by (simp add: subscribe_def lookup_def alloc_def native_invoke_def observer_error_def
        nth_append list_update_append)

lemma subscribe_observable:
  "call_throws (OnHandle h m) w = None \<Longrightarrow>
   subscribe (length xs) (w\<lparr>store := xs @ [Observable (Listen h m)]\<rparr>) =
     (Some (Suc (length xs)),
      w\<lparr>store := xs @ [Observable (Listen h m), Subscriber [] None],
        invocations := invocations w @
          [\<lparr>call = OnHandle h m, success_cb = ObserverNext (Suc (length xs)),
            error_cb = ObserverError (Suc (length xs))\<rparr>]\<rparr>)"
  by (simp add: subscribe_def lookup_def alloc_def native_invoke_def)

lemma subscriber_next:
  assumes "jobs w = []" and "success_cb entry = ObserverNext (length xs)"
  shows "native_fires (length ivs) (Success v)
           (w\<lparr>store := xs @ [Subscriber ds None], invocations := ivs @ [entry]\<rparr>)
         = w\<lparr>store := xs @ [Subscriber (ds @ [v]) None], invocations := ivs @ [entry]\<rparr>"
  using assms by (simp add: native_fires_def observer_next_def lookup_def drain_quiescent)

lemma subscriber_error:
  assumes "jobs w = []" and "error_cb entry = ObserverError (length xs)"
  shows "native_fires (length ivs) (Failure e)
           (w\<lparr>store := xs @ [Subscriber ds None], invocations := ivs @ [entry]\<rparr>)
         = w\<lparr>store := xs @ [Subscriber ds (Some e)], invocations := ivs @ [entry]\<rparr>"
  using assms by (simp add: native_fires_def observer_error_def lookup_def drain_quiescent)

lemma subscriber_ended:
  assumes "jobs w = []" and "success_cb entry = ObserverNext (length xs)"
      and "error_cb entry = ObserverError (length xs)"
  shows "native_fires_all (length ivs) evs
           (w\<lparr>store := xs @ [Subscriber ds (Some e)], invocations := ivs @ [entry]\<rparr>)
         = w\<lparr>store := xs @ [Subscriber ds (Some e)], invocations := ivs @ [entry]\<rparr>"
proof (induction evs)
  case Nil
  show ?case by simp
next
  case (Cons ev evs)
  have "native_fires (length ivs) ev
          (w\<lparr>store := xs @ [Subscriber ds (Some e)], invocations := ivs @ [entry]\<rparr>)
        = w\<lparr>store := xs @ [Subscriber ds (Some e)], invocations := ivs @ [entry]\<rparr>"
    using assms
    by (cases ev)
       (simp_all add: native_fires_def observer_next_def observer_error_def lookup_def
          drain_quiescent)
  with Cons.IH show ?case by simp
qed

lemma subscriber_values:
  assumes "jobs w = []" and "success_cb entry = ObserverNext (length xs)"
  shows "native_fires_all (length ivs) (map Success vs @ evs)
           (w\<lparr>store := xs @ [Subscriber ds None], invocations := ivs @ [entry]\<rparr>)
         = native_fires_all (length ivs) evs
           (w\<lparr>store := xs @ [Subscriber (ds @ vs) None], invocations := ivs @ [entry]\<rparr>)"
proof (induction vs arbitrary: ds)
  case Nil
  show ?case by simp
next
  case (Cons v vs)
  show ?case
    using Cons.IH [of "ds @ [v]"] by (simp add: subscriber_next [OF assms])
qed

lemma drain_one:
  "jobs w = [job] \<Longrightarrow> jobs (apply_callback (fst job) (snd job) (w\<lparr>jobs := []\<rparr>)) = [] \<Longrightarrow>
   drain w = apply_callback (fst job) (snd job) (w\<lparr>jobs := []\<rparr>)"
  by (subst drain.simps) (simp add: drain_quiescent)

lemma HyperTrackPlugin_stub_world:
  "HyperTrackPlugin_stub c w =
     (Normal (length (store w)),
      w\<lparr>store := store w @ [Promise Pending []],
        invocations := invocations w @
          [\<lparr>call = OnPlugin c, success_cb = ResolveWith (length (store w)),
            error_cb = RejectWith (length (store w))\<rparr>]\<rparr>)"
  by (simp add: HyperTrackPlugin_stub_def new_Promise_invoke)

lemma initialize_world:
  "initialize publishableKey w =
     (Normal (length (store w)),
      w\<lparr>store := store w @ [Promise Pending [],
                              Promise Pending [(ResolveNewHyperTrack (length (store w)),
                                                RejectWith (length (store w)))]],
        invocations := invocations w @
          [\<lparr>call = OnPlugin (Plugin_initialize publishableKey),
            success_cb = ResolveWith (Suc (length (store w))),
            error_cb = RejectWith (Suc (length (store w)))\<rparr>]\<rparr>)"
  by (simp add: initialize_def new_Promise_def alloc_def HyperTrackPlugin_stub_world
        then_catch_def lookup_def nth_append list_update_append)

lemma initialize_success:
  assumes "jobs w = []"
  shows "native_fires (length (invocations w)) (Success h) (snd (initialize publishableKey w)) =
     (snd (initialize publishableKey w))
       \<lparr>store := store w @ [Promise (Fulfilled (Instance (HyperTrack h))) [],
                            Promise (Fulfilled h) []]\<rparr>"
proof -
  let ?p = "length (store w)"
  let ?w1 = "snd (initialize publishableKey w)"
  let ?w2 = "?w1\<lparr>store := store w @ [Promise Pending [], Promise (Fulfilled h) []],
                 jobs := [(ResolveNewHyperTrack ?p, h)]\<rparr>"
  have a: "apply_callback (ResolveWith (Suc ?p)) h ?w1 = ?w2"
    using assms
    by (simp add: initialize_world resolve_def lookup_def nth_append list_update_append)
  have b: "apply_callback (ResolveNewHyperTrack ?p) h (?w2\<lparr>jobs := []\<rparr>) =
           ?w1\<lparr>store := store w @ [Promise (Fulfilled (Instance (HyperTrack h))) [],
                                   Promise (Fulfilled h) []]\<rparr>"
    using assms
    by (simp add: initialize_world resolve_def lookup_def nth_append list_update_append)
  have "drain ?w2 = apply_callback (ResolveNewHyperTrack ?p) h (?w2\<lparr>jobs := []\<rparr>)"
    using drain_one [of ?w2 "(ResolveNewHyperTrack ?p, h)"] b assms
    by (simp add: initialize_world)
  with a b show ?thesis
    by (simp add: native_fires_def initialize_world)
qed

lemma initialize_failure:
  assumes "jobs w = []"
  shows "native_fires (length (invocations w)) (Failure e) (snd (initialize publishableKey w)) =
     (snd (initialize publishableKey w))
       \<lparr>store := store w @ [Promise (Rejected e) [], Promise (Rejected e) []]\<rparr>"
proof -
  let ?p = "length (store w)"
  let ?w1 = "snd (initialize publishableKey w)"
  let ?w2 = "?w1\<lparr>store := store w @ [Promise Pending [], Promise (Rejected e) []],
                 jobs := [(RejectWith ?p, e)]\<rparr>"
  have a: "apply_callback (RejectWith (Suc ?p)) e ?w1 = ?w2"
    using assms
    by (simp add: initialize_world reject_def lookup_def nth_append list_update_append)
  have b: "apply_callback (RejectWith ?p) e (?w2\<lparr>jobs := []\<rparr>) =
           ?w1\<lparr>store := store w @ [Promise (Rejected e) [], Promise (Rejected e) []]\<rparr>"
    using assms
    by (simp add: initialize_world reject_def lookup_def nth_append list_update_append)
  have "drain ?w2 = apply_callback (RejectWith ?p) e (?w2\<lparr>jobs := []\<rparr>)"
    using drain_one [of ?w2 "(RejectWith ?p, e)"] b assms
    by (simp add: initialize_world)
  with a b show ?thesis
    by (simp add: native_fires_def initialize_world)
qed

subsection \<open>A settled promise never changes\<close>

lemma settled_resolve: "is_settled p w \<Longrightarrow> lookup p (resolve q v w) = lookup p w"
  by (auto simp: is_settled_def resolve_def lookup_def nth_list_update
           split: option.splits cell.splits promise_state.splits if_splits)

lemma settled_reject: "is_settled p w \<Longrightarrow> lookup p (reject q e w) = lookup p w"
  by (auto simp: is_settled_def reject_def lookup_def nth_list_update
           split: option.splits cell.splits promise_state.splits if_splits)

lemma settled_observer_next: "is_settled p w \<Longrightarrow> lookup p (observer_next s v w) = lookup p w"
  by (auto simp: is_settled_def observer_next_def lookup_def nth_list_update
           split: option.splits cell.splits if_splits)

lemma settled_observer_error: "is_settled p w \<Longrightarrow> lookup p (observer_error s v w) = lookup p w"
  by (auto simp: is_settled_def observer_error_def lookup_def nth_list_update
           split: option.splits cell.splits if_splits)

lemma settled_apply_callback:
  "is_settled p w \<Longrightarrow> lookup p (apply_callback cb v w) = lookup p w"
  by (cases cb)
     (simp_all add: settled_resolve settled_reject settled_observer_next settled_observer_error)

lemma lookup_jobs_update [simp]: "lookup p (w\<lparr>jobs := js\<rparr>) = lookup p w"
  by (simp add: lookup_def)

lemma lookup_invocations_update [simp]: "lookup p (w\<lparr>invocations := ivs\<rparr>) = lookup p w"
  by (simp add: lookup_def)

lemma settled_drain: "is_settled p w \<Longrightarrow> lookup p (drain w) = lookup p w"
proof (induction w rule: drain.induct)
  case (1 w)
  show ?case
  proof (cases "jobs w")
    case Nil
    then show ?thesis by (simp add: drain_quiescent)
  next
    case (Cons job js)
    let ?w' = "apply_callback (fst job) (snd job) (w\<lparr>jobs := js\<rparr>)"
    have s0: "is_settled p (w\<lparr>jobs := js\<rparr>)"
      using "1.prems" by (simp add: is_settled_def)
    then have l: "lookup p ?w' = lookup p w"
      by (simp add: settled_apply_callback)
    then have "is_settled p ?w'"
      using "1.prems" by (simp add: is_settled_def)
    with "1.IH" [OF Cons] have "lookup p (drain ?w') = lookup p ?w'" .
    moreover have "drain w = drain ?w'"
      using Cons by (subst drain.simps) simp
    ultimately show ?thesis using l by simp
  qed
qed

lemma settled_native_fires: "is_settled p w \<Longrightarrow> lookup p (native_fires i ev w) = lookup p w"
proof -
  assume s: "is_settled p w"
  have "lookup p (drain (apply_callback cb v w)) = lookup p w" for cb v
  proof -
    have l: "lookup p (apply_callback cb v w) = lookup p w"
      using s by (rule settled_apply_callback)
    with s have "is_settled p (apply_callback cb v w)" by (simp add: is_settled_def)
    from settled_drain [OF this] l show ?thesis by simp
  qed
  then show ?thesis by (cases ev) (simp_all add: native_fires_def)
qed

lemma settled_alloc: "is_settled p w \<Longrightarrow> lookup p (snd (alloc c w)) = lookup p w"
  by (auto simp: is_settled_def alloc_def lookup_def nth_append split: if_splits)

lemma snd_case_completion [simp]:
  "snd (case cw of (Normal x, w1) \<Rightarrow> (A x, w1) | (Abrupt e, w1) \<Rightarrow> (B e, w1)) = snd cw"
  by (cases cw; cases "fst cw") auto

lemma settled_native_invoke: "lookup p (snd (native_invoke c s e w)) = lookup p w"
  by (simp add: native_invoke_def split: option.splits)

lemma settled_then_catch: "is_settled p w \<Longrightarrow> lookup p (then_catch q f g w) = lookup p w"
  by (auto simp: is_settled_def then_catch_def lookup_def nth_list_update
           split: option.splits cell.splits promise_state.splits if_splits)

lemma settled_new_Promise:
  assumes "\<And>q w'. is_settled p w' \<Longrightarrow> lookup p (snd (ex q w')) = lookup p w'"
      and "is_settled p w"
  shows "lookup p (snd (new_Promise ex w)) = lookup p w"
proof -
  let ?a = "alloc (Promise Pending []) w"
  have a: "lookup p (snd ?a) = lookup p w"
    using assms(2) by (rule settled_alloc)
  then have sa: "is_settled p (snd ?a)"
    using assms(2) by (simp add: is_settled_def)
  obtain c w2 where e: "ex (fst ?a) (snd ?a) = (c, w2)"
    by (cases "ex (fst ?a) (snd ?a)")
  from assms(1) [OF sa, of "fst ?a"] e a have l: "lookup p w2 = lookup p w" by simp
  then have "is_settled p w2" using assms(2) by (simp add: is_settled_def)
  from settled_reject [OF this] l e show ?thesis
    by (cases c) (simp_all add: new_Promise_def case_prod_beta)
qed

lemma settled_stub: "is_settled p w \<Longrightarrow> lookup p (snd (HyperTrackPlugin_stub c w)) = lookup p w"
  unfolding HyperTrackPlugin_stub_def
  by (rule settled_new_Promise) (simp_all add: settled_native_invoke)

lemma settled_initialize: "is_settled p w \<Longrightarrow> lookup p (snd (initialize k w)) = lookup p w"
  unfolding initialize_def
proof (rule settled_new_Promise)
  fix q w'
  assume s: "is_settled p w'"
  obtain c w1 where st: "HyperTrackPlugin_stub (Plugin_initialize k) w' = (c, w1)"
    by (cases "HyperTrackPlugin_stub (Plugin_initialize k) w'")
  from settled_stub [OF s, of "Plugin_initialize k"] st have l: "lookup p w1 = lookup p w'" by simp
  then have "is_settled p w1" using s by (simp add: is_settled_def)
  from settled_then_catch [OF this] l st
  show "lookup p (snd (case HyperTrackPlugin_stub (Plugin_initialize k) w' of
                         (Normal q', w1) \<Rightarrow>
                           (Normal (), then_catch q' (ResolveNewHyperTrack q) (RejectWith q) w1)
                       | (Abrupt e, w1) \<Rightarrow> (Abrupt e, w1))) = lookup p w'"
    by (cases c) simp_all
qed simp

lemma settled_call_method:
  "is_settled p w \<Longrightarrow> lookup p (snd (call_method this r w)) = lookup p w"
  by (cases r)
     (simp_all add: promise_operation_defs trackingStateChange_def availabilityStateChange_def
        new_Observable_def settled_alloc settled_new_Promise settled_native_invoke
        case_prod_beta)

lemma settled_listen:
  assumes "is_settled p w"
  shows "lookup p (snd (case alloc (Subscriber [] None) w of
           (s, w1) \<Rightarrow>
             (case native_invoke (OnHandle h m) (ObserverNext s) (ObserverError s) w1 of
                (Normal u, w2) \<Rightarrow> (Some s, w2)
              | (Abrupt e, w2) \<Rightarrow> (Some s, observer_error s e w2)))) = lookup p w"
proof -
  let ?a = "alloc (Subscriber [] None) w"
  have a: "lookup p (snd ?a) = lookup p w"
    using assms by (rule settled_alloc)
  obtain c w2 where e:
    "native_invoke (OnHandle h m) (ObserverNext (fst ?a)) (ObserverError (fst ?a)) (snd ?a) = (c, w2)"
    by (cases "native_invoke (OnHandle h m) (ObserverNext (fst ?a)) (ObserverError (fst ?a))
                 (snd ?a)")
  from settled_native_invoke [of p "OnHandle h m" "ObserverNext (fst ?a)" "ObserverError (fst ?a)"
         "snd ?a"] e a
  have l: "lookup p w2 = lookup p w" by simp
  then have "is_settled p w2" using assms by (simp add: is_settled_def)
  from settled_observer_error [OF this] l e show ?thesis
    by (cases c) (simp_all add: case_prod_beta)
qed

lemma settled_subscribe: "is_settled p w \<Longrightarrow> lookup p (snd (subscribe obs w)) = lookup p w"
  by (simp add: subscribe_def settled_listen
           split: option.splits cell.splits subscribe_fn.splits)

lemma settled_perform: "is_settled p w \<Longrightarrow> lookup p (snd (perform op w)) = lookup p w"
  by (cases op)
     (simp_all add: enableDebugLogging_def getBlockers_def settled_stub settled_initialize
        settled_call_method split: sum.splits)

lemma settled_then_drain:
  assumes "is_settled p w" and "lookup p w' = lookup p w"
  shows "lookup p (drain w') = lookup p w"
proof -
  from assms have "is_settled p w'" by (simp add: is_settled_def)
  from settled_drain [OF this] assms(2) show ?thesis by simp
qed

lemma lookup_native_sync_update [simp]: "lookup p (w\<lparr>native_sync := f\<rparr>) = lookup p w"
  by (simp add: lookup_def)

lemma settled_take_step: "is_settled p w \<Longrightarrow> lookup p (take_step a w) = lookup p w"
  by (cases a)
     (simp_all add: settled_native_fires settled_then_drain settled_perform settled_subscribe)

lemma settled_run: "is_settled p w \<Longrightarrow> lookup p (run ss w) = lookup p w"
proof (induction ss arbitrary: w)
  case Nil
  show ?case by simp
next
  case (Cons a ss)
  have "lookup p (take_step a w) = lookup p w" using Cons.prems by (rule settled_take_step)
  moreover from this Cons.prems have "is_settled p (take_step a w)" by (simp add: is_settled_def)
  ultimately show ?case using Cons.IH by simp
qed

subsection \<open>Where surfaced errors come from\<close>






















lemma fst_HyperTrackPlugin_stub: "fst (HyperTrackPlugin_stub c w) = Normal (length (store w))"
  by (simp add: HyperTrackPlugin_stub_world)











lemma lookup_last: "lookup (length xs) (w\<lparr>store := xs @ [c]\<rparr>) = Some c"
  by (simp add: lookup_def)

lemma lookup_last_but_one: "lookup (length xs) (w\<lparr>store := xs @ [c, d]\<rparr>) = Some c"
  by (simp add: lookup_def nth_append)

lemma lookup_second: "lookup (Suc (length xs)) (w\<lparr>store := xs @ [c, d]\<rparr>) = Some d"
  by (simp add: lookup_def nth_append)

section \<open>Coordinate validation\<close>

lemma new_Coordinates_not_NaN:
  "latitude \<noteq> NaN \<Longrightarrow> longitude \<noteq> NaN \<Longrightarrow>
   new_Coordinates latitude longitude =
     (if spec_in_interval (- 90) 90 latitude \<and> spec_in_interval (- 180) 180 longitude
      then Inr Coordinates
      else Inl (CoordinatesValidationError
                 ''latitude and longitude should be of correct valaues''))"
  by (cases latitude; cases longitude)
     (auto simp: new_Coordinates_def js_greater_def spec_in_interval_def)

lemma perform_NewCoordinates_world: "snd (perform (NewCoordinates latitude longitude) w) = w"
  by (simp split: sum.splits)

text \<open>
  C1. Every latitude outside \<open>[-90, 90]\<close> or longitude outside \<open>[-180, 180]\<close> is to be
  rejected with the validation error. NaN is a number outside both intervals, and the
  constructor accepts it: both comparisons of the range test are false on NaN. (For all
  other numbers the constructor decides as the claim says, \<open>new_Coordinates_not_NaN\<close>,
  and it never touches the world, \<open>perform_NewCoordinates_world\<close>.)
\<close>

theorem new_Coordinates_accepts_NaN_latitude:
  "\<not> spec_in_interval (- 90) 90 NaN \<and> new_Coordinates NaN (Num 0) = Inr Coordinates"
  by (simp add: new_Coordinates_def js_greater_def spec_in_interval_def)

text \<open>
  C8, as stated: a NaN latitude or longitude does not raise the validation error. It
  fails where the other coordinate is out of its range: latitude NaN with longitude 200
  is rejected.
\<close>

theorem new_Coordinates_NaN_with_bad_longitude:
  "new_Coordinates NaN (Num 200) =
     Inl (CoordinatesValidationError ''latitude and longitude should be of correct valaues'')"
  by (simp add: new_Coordinates_def js_greater_def)

text \<open>
  C8, amended: a NaN coordinate passes its own range test, although it is in neither
  interval; construction with a NaN coordinate succeeds exactly when the other
  coordinate is NaN too or lies in its interval.
\<close>

theorem new_Coordinates_NaN_passes:
  "latitude = NaN \<or> longitude = NaN \<Longrightarrow>
   \<not> spec_in_interval lo hi NaN \<and>
   (new_Coordinates latitude longitude = Inr Coordinates) =
     ((latitude = NaN \<or> spec_in_interval (- 90) 90 latitude) \<and>
      (longitude = NaN \<or> spec_in_interval (- 180) 180 longitude))"
  by (cases latitude; cases longitude)
     (auto simp: new_Coordinates_def js_greater_def spec_in_interval_def)

theorem new_Coordinates_NaN_passes_witness:
  "(NaN = NaN \<or> Num 10 = NaN) \<and> \<not> spec_in_interval (- 90) 90 NaN \<and>
   new_Coordinates NaN (Num 10) = Inr Coordinates \<and> new_Coordinates NaN NaN = Inr Coordinates"
  using new_Coordinates_NaN_passes [of NaN "Num 10" "- 90" 90]
        new_Coordinates_NaN_passes [of NaN NaN "- 90" 90]
  by (simp add: spec_in_interval_def)

text \<open>
  C9. A constructed \<open>Coordinates\<close> object retains neither coordinate: any two successful
  constructions yield the same object, \<open>addGeotag\<close> forwards the same native call for
  both, and no function recovers the coordinates from the constructed object.
\<close>

theorem Coordinates_retain_nothing:
  assumes "new_Coordinates latitude longitude = Inr c"
      and "new_Coordinates latitude' longitude' = Inr c'"
  shows "c = c' \<and>
         addGeotag this geotagData (Some c) w = addGeotag this geotagData (Some c') w \<and>
         \<not> (\<exists>f. \<forall>la lo x. new_Coordinates la lo = Inr x \<longrightarrow> f x = (la, lo))"
proof -
  have c: "c = c'" by (cases c; cases c') simp
  have "\<not> (\<exists>f. \<forall>la lo x. new_Coordinates la lo = Inr x \<longrightarrow> f x = (la, lo))"
  proof
    assume "\<exists>f. \<forall>la lo x. new_Coordinates la lo = Inr x \<longrightarrow> f x = (la, lo)"
    then obtain f where f: "\<And>la lo x. new_Coordinates la lo = Inr x \<Longrightarrow> f x = (la, lo)"
      by blast
    have "new_Coordinates (Num 0) (Num 0) = Inr Coordinates"
      and "new_Coordinates (Num 1) (Num 1) = Inr Coordinates"
      by (simp_all add: new_Coordinates_def js_greater_def)
    from f [OF this(1)] f [OF this(2)] show False by simp
  qed
  with c show ?thesis by simp
qed

text \<open>
  The theorem at the positions (10, 20) and (-45, 100): the native call of \<open>addGeotag\<close>
  carries an object without coordinates.
\<close>

theorem Coordinates_retain_nothing_witness:
  "new_Coordinates (Num 10) (Num 20) = Inr Coordinates \<and>
   new_Coordinates (Num (- 45)) (Num 100) = Inr Coordinates \<and>
   addGeotag (HyperTrack (NativeObject 7)) (Obj [(''order'', Str ''42'')]) (Some Coordinates)
     empty_world =
     (Normal 0,
      empty_world
        \<lparr>store := [Promise Pending []],
         invocations :=
           [\<lparr>call = OnHandle (NativeObject 7)
                      (Cordova_addGeoTag (Obj [(''order'', Str ''42'')]) (Some Coordinates)),
             success_cb = ResolveVoid 0, error_cb = RejectWith 0\<rparr>]\<rparr>)"
proof -
  have a: "new_Coordinates (Num 10) (Num 20) = Inr Coordinates"
    and b: "new_Coordinates (Num (- 45)) (Num 100) = Inr Coordinates"
    by (simp_all add: new_Coordinates_def js_greater_def)
  from Coordinates_retain_nothing [OF a b, of "HyperTrack (NativeObject 7)"
         "Obj [(''order'', Str ''42'')]" empty_world] a b
  show ?thesis
    by (simp add: addGeotag_def new_Promise_invoke) (simp add: empty_world_def)
qed

section \<open>Promise-returning operations\<close>

text \<open>
  C2, as stated: for each of the sixteen promise-returning operations the promise resolves
  with exactly the value the native success callback is invoked with. It fails for the
  twelve operations of type \<open>Promise<void>\<close>, whose success handler is \<open>() => resolve()\<close>:
  \<open>setDeviceName\<close> answered by the success callback with \<open>"OK"\<close> resolves with
  \<open>undefined\<close>.
\<close>

theorem setDeviceName_discards_callback_value:
  "fst (setDeviceName (HyperTrack (NativeObject 0)) ''Elvis Ionic'' empty_world) = Normal 0 \<and>
   lookup 0
     (native_fires 0 (Success (Str ''OK''))
        (snd (setDeviceName (HyperTrack (NativeObject 0)) ''Elvis Ionic'' empty_world)))
     = Some (Promise (Fulfilled Undefined) []) \<and> Undefined \<noteq> Str ''OK''"
  by (simp add: setDeviceName_def new_Promise_invoke)
     (simp add: empty_world_def native_fires_def resolve_def lookup_def drain_quiescent)

text \<open>
  C2, amended. In a world with no reaction pending, each of the sixteen promise-returning
  operations returns a new promise and, where the wrapped handle has the method and the
  call returns, makes exactly one native call, the method of its name on the handle with
  the arguments unchanged; nothing else changes. The first callback the native layer
  invokes settles the promise and later ones are ignored: a failure callback rejects it
  with exactly the error it is given; a success callback resolves it with exactly the
  value it is given for \<open>getDeviceId\<close>, \<open>isRunning\<close>, \<open>isTracking\<close> and \<open>getAvailability\<close>,
  and with \<open>undefined\<close>, whatever it is given, for the other twelve. The world afterwards
  differs from the one before the native answer in that promise only. Where the call of
  the native method throws, no native call is recorded and the promise is rejected with
  what was thrown.
\<close>

theorem promise_operation_settles:
  assumes "\<not> spec_returns_stream r" and "jobs w = []"
  shows "(case call_throws (OnHandle (cordovaInstanceHandle this) (spec_native_call r)) w of
       None \<Rightarrow>
         (let p = length (store w); i = length (invocations w);
              w1 = w\<lparr>store := store w @ [Promise Pending []],
                     invocations := invocations w @
                       [\<lparr>call = OnHandle (cordovaInstanceHandle this) (spec_native_call r),
                         success_cb = (if spec_carries_value r then ResolveWith p
                                       else ResolveVoid p),
                         error_cb = RejectWith p\<rparr>]\<rparr> in
            call_method this r w = (Normal p, w1) \<and>
            native_fires_all i (Success v # evs) w1 =
              w1\<lparr>store := store w @
                     [Promise (Fulfilled (if spec_carries_value r then v else Undefined)) []]\<rparr> \<and>
            native_fires_all i (Failure e # evs) w1 =
              w1\<lparr>store := store w @ [Promise (Rejected e) []]\<rparr>)
     | Some x \<Rightarrow>
         call_method this r w =
           (Normal (length (store w)), w\<lparr>store := store w @ [Promise (Rejected x) []]\<rparr>))"
proof (cases "call_throws (OnHandle (cordovaInstanceHandle this) (spec_native_call r)) w")
  case None
  with assms show ?thesis
    by (simp add: call_method_promise native_fires_def resolve_fresh reject_fresh
          drain_quiescent native_fires_all_settled)
next
  case (Some x)
  with assms show ?thesis
    by (simp add: call_method_promise_throws)
qed

text \<open>
  The theorem at \<open>getDeviceId\<close> in the empty world: a success with \<open>"device-123"\<close>, and a
  failure followed by a late success; and on an instance whose handle is \<open>undefined\<close>.
\<close>

theorem promise_operation_settles_witness:
  "\<not> spec_returns_stream GetDeviceId \<and> jobs empty_world = [] \<and>
   native_fires_all 0 [Success (Str ''device-123'')]
     (snd (call_method (HyperTrack (NativeObject 7)) GetDeviceId empty_world)) =
     empty_world
       \<lparr>store := [Promise (Fulfilled (Str ''device-123'')) []],
        invocations := [\<lparr>call = OnHandle (NativeObject 7) Cordova_getDeviceId,
                         success_cb = ResolveWith 0, error_cb = RejectWith 0\<rparr>]\<rparr> \<and>
   native_fires_all 0 [Failure (ErrorObj (Error ''no device'')), Success (Str ''late'')]
     (snd (call_method (HyperTrack (NativeObject 7)) GetDeviceId empty_world)) =
     empty_world
       \<lparr>store := [Promise (Rejected (ErrorObj (Error ''no device''))) []],
        invocations := [\<lparr>call = OnHandle (NativeObject 7) Cordova_getDeviceId,
                         success_cb = ResolveWith 0, error_cb = RejectWith 0\<rparr>]\<rparr> \<and>
   call_method (HyperTrack Undefined) GetDeviceId empty_world =
     (Normal 0, empty_world\<lparr>store := [Promise (Rejected (ErrorObj TypeError)) []]\<rparr>)"
proof -
  have h: "\<not> spec_returns_stream GetDeviceId" and q: "jobs empty_world = []"
    by (simp_all add: empty_world_def)
  have n: "call_throws (OnHandle (NativeObject 7) Cordova_getDeviceId) empty_world = None"
    and u: "call_throws (OnHandle Undefined Cordova_getDeviceId) empty_world
              = Some (ErrorObj TypeError)"
    by (simp_all add: call_throws_def empty_world_def)
  have s: "store empty_world = []" and i: "invocations empty_world = []"
    by (simp_all add: empty_world_def)
  have t: "native_fires_all 0 [Success (Str ''device-123'')]
     (snd (call_method (HyperTrack (NativeObject 7)) GetDeviceId empty_world)) =
     empty_world
       \<lparr>store := [Promise (Fulfilled (Str ''device-123'')) []],
        invocations := [\<lparr>call = OnHandle (NativeObject 7) Cordova_getDeviceId,
                         success_cb = ResolveWith 0, error_cb = RejectWith 0\<rparr>]\<rparr>"
    by (simp add: getDeviceId_def new_Promise_def alloc_def native_invoke_def call_throws_def
          empty_world_def native_fires_def resolve_def lookup_def drain_quiescent)
  from promise_operation_settles [OF h q, where this = "HyperTrack (NativeObject 7)"
         and v = "Str ''device-123''" and evs = "[]" and e = "ErrorObj (Error ''no device'')"]
       promise_operation_settles [OF h q, where this = "HyperTrack (NativeObject 7)"
         and v = "Str ''x''" and evs = "[Success (Str ''late'')]"
         and e = "ErrorObj (Error ''no device'')"]
       promise_operation_settles [OF h q, where this = "HyperTrack Undefined"]
  show ?thesis
    using h q t by (clarsimp simp add: n u s i Let_def simp del: call_method.simps)
qed

section \<open>Stream-returning operations\<close>

text \<open>
  C3. \<open>trackingStateChange\<close> and \<open>availabilityStateChange\<close> return an observable and
  make no native call by themselves; a subscription calls the native method of that name
  on the wrapped handle once. From then on every success callback of the native layer
  delivers exactly its value to the subscriber, in the order the callbacks fire, and the
  first failure callback ends the subscriber with exactly its error; whatever the native
  layer invokes afterwards is ignored. (Where the call of the native method throws at the
  subscription, no native call is recorded and the subscriber ends with what was thrown.)
\<close>

theorem stream_events:
  assumes "spec_returns_stream r" and "jobs w = []"
  shows "(let obs = length (store w); i = length (invocations w);
              f = Listen (cordovaInstanceHandle this) (spec_native_call r);
              w1 = w\<lparr>store := store w @ [Observable f]\<rparr> in
     call_method this r w = (Normal obs, w1) \<and>
     (case call_throws (OnHandle (cordovaInstanceHandle this) (spec_native_call r)) w of
        None \<Rightarrow>
          (let (s, w2) = subscribe obs w1 in
             s = Some (Suc obs) \<and>
             w2 = w\<lparr>store := store w @ [Observable f, Subscriber [] None],
                    invocations := invocations w @
                      [\<lparr>call = OnHandle (cordovaInstanceHandle this) (spec_native_call r),
                        success_cb = ObserverNext (Suc obs),
                        error_cb = ObserverError (Suc obs)\<rparr>]\<rparr> \<and>
             native_fires_all i (map Success vs) w2 =
               w2\<lparr>store := store w @ [Observable f, Subscriber vs None]\<rparr> \<and>
             native_fires_all i (map Success vs @ Failure e # evs) w2 =
               w2\<lparr>store := store w @ [Observable f, Subscriber vs (Some e)]\<rparr>)
      | Some x \<Rightarrow>
          subscribe obs w1 =
            (Some (Suc obs), w\<lparr>store := store w @ [Observable f, Subscriber [] (Some x)]\<rparr>)))"
proof (cases "call_throws (OnHandle (cordovaInstanceHandle this) (spec_native_call r)) w")
  case None
  let ?h = "cordovaInstanceHandle this" and ?m = "spec_native_call r"
  let ?xs = "store w @ [Observable (Listen ?h ?m)]"
  let ?entry = "\<lparr>call = OnHandle ?h ?m, success_cb = ObserverNext (Suc (length (store w))),
                  error_cb = ObserverError (Suc (length (store w)))\<rparr>"
  have s: "success_cb ?entry = ObserverNext (length ?xs)"
    and e: "error_cb ?entry = ObserverError (length ?xs)" by simp_all
  have a: "native_fires_all (length (invocations w)) (map Success vs @ evs')
             (w\<lparr>store := ?xs @ [Subscriber [] None], invocations := invocations w @ [?entry]\<rparr>)
           = native_fires_all (length (invocations w)) evs'
             (w\<lparr>store := ?xs @ [Subscriber vs None], invocations := invocations w @ [?entry]\<rparr>)"
    for evs'
    using subscriber_values [OF assms(2) s, where ivs = "invocations w" and vs = vs
            and evs = evs' and ds = "[]"] by simp
  have b: "native_fires_all (length (invocations w)) (Failure e # evs)
             (w\<lparr>store := ?xs @ [Subscriber vs None], invocations := invocations w @ [?entry]\<rparr>)
           = w\<lparr>store := ?xs @ [Subscriber vs (Some e)], invocations := invocations w @ [?entry]\<rparr>"
    using subscriber_error [OF assms(2) e, where ivs = "invocations w" and e = e and ds = vs]
          subscriber_ended [OF assms(2) s e, where ivs = "invocations w" and evs = evs
            and ds = vs and e = e] by simp
  from a [of "[]"] a [of "Failure e # evs"] b
  show ?thesis
    using assms(1) None
          subscribe_observable [OF None, where xs = "store w"]
    by (simp add: call_method_stream Let_def)
next
  case (Some x)
  with assms(1) subscribe_observable_throws [OF Some, where xs = "store w"]
  show ?thesis
    by (simp add: call_method_stream Let_def)
qed

text \<open>
  The theorem at \<open>trackingStateChange\<close> in the empty world: two values, then an error,
  then a value that is dropped.
\<close>

theorem stream_events_witness:
  "spec_returns_stream TrackingStateChange \<and> jobs empty_world = [] \<and>
   native_fires_all 0 [Success (Bool True), Success (Bool False)]
     (snd (subscribe 0 (snd (call_method (HyperTrack (NativeObject 7)) TrackingStateChange
                               empty_world)))) =
     empty_world
       \<lparr>store := [Observable (Listen (NativeObject 7) Cordova_trackingStateChange),
                  Subscriber [Bool True, Bool False] None],
        invocations := [\<lparr>call = OnHandle (NativeObject 7) Cordova_trackingStateChange,
                         success_cb = ObserverNext 1, error_cb = ObserverError 1\<rparr>]\<rparr> \<and>
   native_fires_all 0
     [Success (Bool True), Success (Bool False), Failure (ErrorObj (Error ''listener failed'')),
      Success (Bool True)]
     (snd (subscribe 0 (snd (call_method (HyperTrack (NativeObject 7)) TrackingStateChange
                               empty_world)))) =
     empty_world
       \<lparr>store := [Observable (Listen (NativeObject 7) Cordova_trackingStateChange),
                  Subscriber [Bool True, Bool False]
                    (Some (ErrorObj (Error ''listener failed'')))],
        invocations := [\<lparr>call = OnHandle (NativeObject 7) Cordova_trackingStateChange,
                         success_cb = ObserverNext 1, error_cb = ObserverError 1\<rparr>]\<rparr>"
proof -
  have h: "spec_returns_stream TrackingStateChange" and q: "jobs empty_world = []"
    by (simp_all add: empty_world_def)
  have n: "call_throws (OnHandle (NativeObject 7) Cordova_trackingStateChange) empty_world = None"
    by (simp add: call_throws_def empty_world_def)
  have s: "store empty_world = []" and i: "invocations empty_world = []"
    by (simp_all add: empty_world_def)
  from stream_events [OF h q, where this = "HyperTrack (NativeObject 7)"
         and vs = "[Bool True, Bool False]" and e = "ErrorObj (Error ''listener failed'')"
         and evs = "[Success (Bool True)]"]
  show ?thesis
    using h q by (clarsimp simp add: n s i Let_def case_prod_beta simp del: call_method.simps)
qed

section \<open>Disposal\<close>






section \<open>Streams and single-resolution promises\<close>

lemma stream_delivers_all:
  assumes "spec_returns_stream r" and "jobs w = []"
      and "call_throws (OnHandle (cordovaInstanceHandle this) (spec_native_call r)) w = None"
  shows "fst (subscribe (length (store w)) (snd (call_method this r w)))
           = Some (Suc (length (store w)))"
    and "lookup (Suc (length (store w)))
           (native_fires_all (length (invocations w)) (map Success vs)
              (snd (subscribe (length (store w)) (snd (call_method this r w)))))
           = Some (Subscriber vs None)"
proof -
  let ?h = "cordovaInstanceHandle this" and ?m = "spec_native_call r"
  let ?xs = "store w @ [Observable (Listen ?h ?m)]"
  let ?entry = "\<lparr>call = OnHandle ?h ?m, success_cb = ObserverNext (Suc (length (store w))),
                  error_cb = ObserverError (Suc (length (store w)))\<rparr>"
  have s: "success_cb ?entry = ObserverNext (length ?xs)" by simp
  note sub = subscribe_observable [OF assms(3), where xs = "store w"]
  from sub assms(1)
  show "fst (subscribe (length (store w)) (snd (call_method this r w)))
          = Some (Suc (length (store w)))"
    by (simp add: call_method_stream)
  have "native_fires_all (length (invocations w)) (map Success vs @ [])
             (w\<lparr>store := ?xs @ [Subscriber [] None], invocations := invocations w @ [?entry]\<rparr>)
           = w\<lparr>store := ?xs @ [Subscriber vs None], invocations := invocations w @ [?entry]\<rparr>"
    using subscriber_values [OF assms(2) s, where ivs = "invocations w" and vs = vs
            and evs = "[]" and ds = "[]"] by simp
  with sub assms(1)
  show "lookup (Suc (length (store w)))
           (native_fires_all (length (invocations w)) (map Success vs)
              (snd (subscribe (length (store w)) (snd (call_method this r w)))))
           = Some (Subscriber vs None)"
    by (simp add: call_method_stream lookup_second)
qed

lemma promise_settles_on_first_callback:
  assumes "\<not> spec_returns_stream r" and "jobs w = []"
      and "call_throws (OnHandle (cordovaInstanceHandle this) (spec_native_call r)) w = None"
  shows "is_settled (length (store w))
           (native_fires (length (invocations w)) ev (snd (call_method this r w)))"
  using assms
  by (cases ev)
     (simp_all add: call_method_promise native_fires_def resolve_fresh reject_fresh
        drain_quiescent is_settled_def lookup_last)

text \<open>
  C5. Of the eighteen instance operations exactly \<open>trackingStateChange\<close> and
  \<open>availabilityStateChange\<close> return an observable, and it is a multi-fire stream: where
  the native method is there to be called, a subscriber receives every value of however
  many success callbacks the native layer invokes. Each of the other sixteen returns a
  promise (pending, or already rejected where the native call threw) that settles at
  the first callback of the native layer and at most once: once it is settled, no run of
  the system (calls, subscriptions, native callbacks) changes it.
\<close>

theorem exactly_two_stream_operations:
  "(let x = length (store w); i = length (invocations w);
        c = OnHandle (cordovaInstanceHandle this) (spec_native_call r);
        w1 = snd (call_method this r w) in
      fst (call_method this r w) = Normal x \<and>
      (if r = TrackingStateChange \<or> r = AvailabilityStateChange
       then lookup x w1 =
              Some (Observable (Listen (cordovaInstanceHandle this) (spec_native_call r))) \<and>
            (jobs w = [] \<longrightarrow> call_throws c w = None \<longrightarrow>
               fst (subscribe x w1) = Some (Suc x) \<and>
               lookup (Suc x) (native_fires_all i (map Success vs) (snd (subscribe x w1)))
                 = Some (Subscriber vs None))
       else lookup x w1 =
              Some (Promise (case call_throws c w of None \<Rightarrow> Pending | Some e \<Rightarrow> Rejected e) []) \<and>
            (jobs w = [] \<longrightarrow> call_throws c w = None \<longrightarrow>
               is_settled x (native_fires i ev w1)) \<and>
            (\<forall>ss ss'. is_settled x (run ss w1) \<longrightarrow>
                       lookup x (run ss' (run ss w1)) = lookup x (run ss w1))))"
proof (cases "spec_returns_stream r")
  case True
  then have r: "r = TrackingStateChange \<or> r = AvailabilityStateChange"
    by (cases r) simp_all
  from True have "fst (call_method this r w) = Normal (length (store w))"
    and "lookup (length (store w)) (snd (call_method this r w)) =
           Some (Observable (Listen (cordovaInstanceHandle this) (spec_native_call r)))"
    by (simp_all add: call_method_stream lookup_last)
  with r stream_delivers_all(1) [OF True, where w = w and this = this]
       stream_delivers_all(2) [OF True, where w = w and this = this and vs = vs]
  show ?thesis
    by (simp add: Let_def del: call_method.simps)
next
  case False
  then have r: "\<not> (r = TrackingStateChange \<or> r = AvailabilityStateChange)"
    by auto
  from False have "fst (call_method this r w) = Normal (length (store w))"
    and "lookup (length (store w)) (snd (call_method this r w)) =
           Some (Promise (case call_throws (OnHandle (cordovaInstanceHandle this)
                                 (spec_native_call r)) w of
                            None \<Rightarrow> Pending | Some e \<Rightarrow> Rejected e) [])"
    by (cases "call_throws (OnHandle (cordovaInstanceHandle this) (spec_native_call r)) w";
        simp add: call_method_promise call_method_promise_throws lookup_last)+
  with r promise_settles_on_first_callback [OF False, where w = w and this = this and ev = ev]
  show ?thesis
    by (simp add: Let_def settled_run del: call_method.simps)
qed

text \<open>
  The theorem at \<open>trackingStateChange\<close>, whose subscriber receives three values, and at
  \<open>getDeviceId\<close>, settled by a first success and then answered twice more.
\<close>

theorem exactly_two_stream_operations_witness:
  "lookup 0 (snd (call_method (HyperTrack (NativeObject 7)) TrackingStateChange empty_world))
     = Some (Observable (Listen (NativeObject 7) Cordova_trackingStateChange)) \<and>
   jobs empty_world = [] \<and>
   call_throws (OnHandle (NativeObject 7) Cordova_trackingStateChange) empty_world = None \<and>
   lookup (Suc 0)
     (native_fires_all 0 [Success (Bool True), Success (Bool False), Success (Bool True)]
        (snd (subscribe 0
               (snd (call_method (HyperTrack (NativeObject 7)) TrackingStateChange
                       empty_world)))))
     = Some (Subscriber [Bool True, Bool False, Bool True] None) \<and>
   is_settled 0 (run [NativeFires 0 (Success (Str ''device-123''))]
                   (snd (call_method (HyperTrack (NativeObject 7)) GetDeviceId empty_world))) \<and>
   lookup 0 (run [NativeFires 0 (Failure (ErrorObj (Error ''late''))),
                  NativeFires 0 (Success (Str ''other''))]
              (run [NativeFires 0 (Success (Str ''device-123''))]
                 (snd (call_method (HyperTrack (NativeObject 7)) GetDeviceId empty_world))))
     = Some (Promise (Fulfilled (Str ''device-123'')) [])"
proof -
  let ?T = "HyperTrack (NativeObject 7)"
  let ?w1 = "snd (call_method ?T GetDeviceId empty_world)"
  let ?ss = "[NativeFires 0 (Success (Str ''device-123''))]"
  let ?ss' = "[NativeFires 0 (Failure (ErrorObj (Error ''late''))),
               NativeFires 0 (Success (Str ''other''))]"
  have q: "jobs empty_world = []" and st: "store empty_world = []"
    and iv: "invocations empty_world = []"
    by (simp_all add: empty_world_def)
  have n: "call_throws (OnHandle (NativeObject 7) Cordova_trackingStateChange) empty_world = None"
    and n': "call_throws (OnHandle (NativeObject 7) Cordova_getDeviceId) empty_world = None"
    by simp_all
  note t = exactly_two_stream_operations [where this = ?T and r = TrackingStateChange
             and w = empty_world and vs = "[Bool True, Bool False, Bool True]",
             unfolded Let_def, simplified st iv list.size]
  from t have a: "lookup 0 (snd (call_method ?T TrackingStateChange empty_world))
             = Some (Observable (Listen (NativeObject 7) Cordova_trackingStateChange))"
    by (simp del: call_method.simps)
  from t q n
  have b: "lookup (Suc 0)
     (native_fires_all 0 [Success (Bool True), Success (Bool False), Success (Bool True)]
        (snd (subscribe 0 (snd (call_method ?T TrackingStateChange empty_world)))))
     = Some (Subscriber [Bool True, Bool False, Bool True] None)"
    by (simp del: call_method.simps native_fires_all.simps)
  have b': "lookup (Suc 0)
     (native_fires_all 0 [Success (Bool True), Success (Bool False), Success (Bool True)]
        (snd (subscribe 0 (snd (call_method ?T TrackingStateChange empty_world)))))
     = Some (Subscriber [Bool True, Bool False, Bool True] None)"
    by (simp add: trackingStateChange_def new_Observable_def alloc_def subscribe_def lookup_def
          native_invoke_def call_throws_def empty_world_def native_fires_def observer_next_def
          drain_quiescent)
  have l: "lookup 0 (run ?ss ?w1) = Some (Promise (Fulfilled (Str ''device-123'')) [])"
    by (simp add: getDeviceId_def new_Promise_invoke)
       (simp add: empty_world_def native_fires_def resolve_def lookup_def drain_quiescent)
  then have s: "is_settled 0 (run ?ss ?w1)"
    by (simp add: is_settled_def)
  note u = exactly_two_stream_operations [where this = ?T and r = GetDeviceId
             and w = empty_world, unfolded Let_def, simplified st iv list.size]
  from u q n'
  have "is_settled 0 (native_fires 0 (Success (Str ''device-123'')) ?w1)"
    by (simp del: call_method.simps)
  then have s': "is_settled 0 (run ?ss ?w1)"
    by (simp add: drain_quiescent del: call_method.simps)
  from u have "\<forall>ss ss'. is_settled 0 (run ss ?w1) \<longrightarrow>
                   lookup 0 (run ss' (run ss ?w1)) = lookup 0 (run ss ?w1)"
    by (simp del: call_method.simps)
  from this [rule_format, OF s, of ?ss'] l
  have c: "lookup 0 (run ?ss' (run ?ss ?w1)) = Some (Promise (Fulfilled (Str ''device-123'')) [])"
    by (simp del: call_method.simps run.simps)
  from a q n b b' s s' c show ?thesis by blast
qed

section \<open>Errors\<close>


lemma fst_new_Promise: "fst (new_Promise ex w) = Normal (length (store w))"
  by (simp add: new_Promise_def alloc_def split: prod.splits completion.splits)

lemma fst_case_completion [simp]:
  "fst (case cw of (Normal x, w1) \<Rightarrow> (A x, w1) | (Abrupt e, w1) \<Rightarrow> (B e, w1)) =
     (case fst cw of Normal x \<Rightarrow> A x | Abrupt e \<Rightarrow> B e)"
  by (cases cw; cases "fst cw") auto




lemma fst_call_method: "fst (call_method this r w) = Normal (length (store w))"
  by (cases r)
     (simp_all add: promise_operation_defs trackingStateChange_def availabilityStateChange_def
        new_Observable_def alloc_def fst_new_Promise)



section \<open>Initialisation\<close>

text \<open>
  C7. \<open>initialize\<close> makes the one plugin call \<open>initialize\<close> with the publishable key.
  When the native promise resolves with a handle, the returned promise resolves with a
  \<open>HyperTrack\<close> instance whose \<open>cordovaInstanceHandle\<close> is exactly that handle; when it
  rejects, the returned promise rejects with the same error. \<open>getDeviceId\<close> on that
  instance, in any world whatever, calls \<open>getDeviceId\<close> on that same handle and resolves
  with the value the native layer answers: the handle held by the instance is all the
  second call takes from the first. (Where the handle has no such method or its call
  throws, \<open>getDeviceId\<close> rejects with what was thrown.)
\<close>

theorem initialize_wraps_native_handle:
  assumes "jobs w = []"
  shows "(let p = length (store w); i = length (invocations w);
              w1 = snd (initialize publishableKey w) in
     fst (initialize publishableKey w) = Normal p \<and>
     invocations w1 = invocations w @
       [\<lparr>call = OnPlugin (Plugin_initialize publishableKey),
         success_cb = ResolveWith (Suc p), error_cb = RejectWith (Suc p)\<rparr>] \<and>
     native_fires i (Success h) w1 =
       w1\<lparr>store := store w @ [Promise (Fulfilled (Instance (HyperTrack h))) [],
                              Promise (Fulfilled h) []]\<rparr> \<and>
     native_fires i (Failure e) w1 =
       w1\<lparr>store := store w @ [Promise (Rejected e) [], Promise (Rejected e) []]\<rparr> \<and>
     (\<forall>w'. jobs w' = [] \<longrightarrow>
        (case call_throws (OnHandle h Cordova_getDeviceId) w' of
           None \<Rightarrow>
             (let d = length (store w');
                  w2 = w'\<lparr>store := store w' @ [Promise Pending []],
                          invocations := invocations w' @
                            [\<lparr>call = OnHandle h Cordova_getDeviceId,
                              success_cb = ResolveWith d, error_cb = RejectWith d\<rparr>]\<rparr> in
                getDeviceId (HyperTrack h) w' = (Normal d, w2) \<and>
                native_fires (length (invocations w')) (Success v) w2 =
                  w2\<lparr>store := store w' @ [Promise (Fulfilled v) []]\<rparr>)
         | Some x \<Rightarrow>
             getDeviceId (HyperTrack h) w' =
               (Normal (length (store w')),
                w'\<lparr>store := store w' @ [Promise (Rejected x) []]\<rparr>))))"
proof -
  note s = initialize_success [OF assms, of h publishableKey]
  note f = initialize_failure [OF assms, of e publishableKey]
  show ?thesis
    unfolding Let_def
    apply (intro conjI)
        apply (simp add: initialize_world)
       apply (simp add: initialize_world)
      apply (rule s)
     apply (rule f)
    apply (simp add: getDeviceId_def new_Promise_invoke new_Promise_invoke_throws
             native_fires_def resolve_fresh drain_quiescent split: option.splits)
    done
qed

text \<open>
  The example of the specification: \<open>initialize("pk_live_abc")\<close> resolved with a native
  handle, then \<open>getDeviceId()\<close> resolved with \<open>"device-123"\<close>.
\<close>

theorem initialize_wraps_native_handle_witness:
  "jobs empty_world = [] \<and>
   native_fires 0 (Success (NativeObject 7)) (snd (initialize ''pk_live_abc'' empty_world)) =
     empty_world
       \<lparr>store := [Promise (Fulfilled (Instance (HyperTrack (NativeObject 7)))) [],
                  Promise (Fulfilled (NativeObject 7)) []],
        invocations := [\<lparr>call = OnPlugin (Plugin_initialize ''pk_live_abc''),
                         success_cb = ResolveWith 1, error_cb = RejectWith 1\<rparr>]\<rparr> \<and>
   native_fires 1 (Success (Str ''device-123''))
     (snd (getDeviceId (HyperTrack (NativeObject 7))
        (empty_world
          \<lparr>store := [Promise (Fulfilled (Instance (HyperTrack (NativeObject 7)))) [],
                     Promise (Fulfilled (NativeObject 7)) []],
           invocations := [\<lparr>call = OnPlugin (Plugin_initialize ''pk_live_abc''),
                            success_cb = ResolveWith 1, error_cb = RejectWith 1\<rparr>]\<rparr>))) =
     empty_world
       \<lparr>store := [Promise (Fulfilled (Instance (HyperTrack (NativeObject 7)))) [],
                  Promise (Fulfilled (NativeObject 7)) [],
                  Promise (Fulfilled (Str ''device-123'')) []],
        invocations := [\<lparr>call = OnPlugin (Plugin_initialize ''pk_live_abc''),
                         success_cb = ResolveWith 1, error_cb = RejectWith 1\<rparr>,
                        \<lparr>call = OnHandle (NativeObject 7) Cordova_getDeviceId,
                         success_cb = ResolveWith 2, error_cb = RejectWith 2\<rparr>]\<rparr>"
proof -
  let ?w' = "empty_world
          \<lparr>store := [Promise (Fulfilled (Instance (HyperTrack (NativeObject 7)))) [],
                     Promise (Fulfilled (NativeObject 7)) []],
           invocations := [\<lparr>call = OnPlugin (Plugin_initialize ''pk_live_abc''),
                            success_cb = ResolveWith 1, error_cb = RejectWith 1\<rparr>]\<rparr>"
  have q: "jobs empty_world = []" and st: "store empty_world = []"
    and iv: "invocations empty_world = []"
    by (simp_all add: empty_world_def)
  have q': "jobs ?w' = []" by (simp add: q)
  have n: "call_throws (OnHandle (NativeObject 7) Cordova_getDeviceId) ?w' = None"
    by simp
  note t = initialize_wraps_native_handle [OF q, where publishableKey = "''pk_live_abc''"
             and h = "NativeObject 7" and v = "Str ''device-123''"
             and e = "ErrorObj (Error ''denied'')", unfolded Let_def]
  note t3 = t [THEN conjunct2, THEN conjunct2, THEN conjunct1]
  note t5 = t [THEN conjunct2, THEN conjunct2, THEN conjunct2, THEN conjunct2, rule_format, OF q']
  from t3 have a: "native_fires 0 (Success (NativeObject 7))
                    (snd (initialize ''pk_live_abc'' empty_world)) = ?w'"
    by (simp add: initialize_world st iv)
  from t5
  have b: "native_fires 1 (Success (Str ''device-123''))
             (snd (getDeviceId (HyperTrack (NativeObject 7)) ?w')) =
           empty_world
       \<lparr>store := [Promise (Fulfilled (Instance (HyperTrack (NativeObject 7)))) [],
                  Promise (Fulfilled (NativeObject 7)) [],
                  Promise (Fulfilled (Str ''device-123'')) []],
        invocations := [\<lparr>call = OnPlugin (Plugin_initialize ''pk_live_abc''),
                         success_cb = ResolveWith 1, error_cb = RejectWith 1\<rparr>,
                        \<lparr>call = OnHandle (NativeObject 7) Cordova_getDeviceId,
                         success_cb = ResolveWith 2, error_cb = RejectWith 2\<rparr>]\<rparr>"
    by (clarsimp simp add: n)
  from q a b show ?thesis by blast
qed

section \<open>Debug logging\<close>

text \<open>
  C10. \<open>enableDebugLogging\<close> returns nothing: it makes the plugin call and leaves behind
  a promise with no reaction, to which the caller holds no reference. A native failure
  rejects that promise and nothing else happens. Every other operation of the facade
  returns a reference on which a native failure is surfaced: \<open>initialize\<close>,
  \<open>getBlockers\<close> and the sixteen promise-returning instance operations a promise that
  is rejected with the error, the two stream operations an observable whose subscriber
  ends with the error (and likewise with what the call of the native method throws,
  where it throws).
\<close>

theorem enableDebugLogging_discards_promise:
  assumes "jobs w = []"
  shows "perform EnableDebugLogging w =
           (ReturnsVoid,
            w\<lparr>store := store w @ [Promise Pending []],
              invocations := invocations w @
                [\<lparr>call = OnPlugin Plugin_enableDebugLogging,
                  success_cb = ResolveWith (length (store w)),
                  error_cb = RejectWith (length (store w))\<rparr>]\<rparr>) \<and>
         native_fires (length (invocations w)) (Failure e) (snd (perform EnableDebugLogging w)) =
           (snd (perform EnableDebugLogging w))\<lparr>store := store w @ [Promise (Rejected e) []]\<rparr> \<and>
         fst (perform (Initialize publishableKey) w) = ReturnsRef (length (store w)) \<and>
         lookup (length (store w))
           (native_fires (length (invocations w)) (Failure e)
              (snd (perform (Initialize publishableKey) w))) = Some (Promise (Rejected e) []) \<and>
         fst (perform GetBlockers w) = ReturnsRef (length (store w)) \<and>
         lookup (length (store w))
           (native_fires (length (invocations w)) (Failure e) (snd (perform GetBlockers w)))
           = Some (Promise (Rejected e) []) \<and>
         fst (perform (Method this r) w) = ReturnsRef (length (store w)) \<and>
         (case call_throws (OnHandle (cordovaInstanceHandle this) (spec_native_call r)) w of
            None \<Rightarrow>
              (if spec_returns_stream r
               then (let (s, w2) = subscribe (length (store w)) (snd (perform (Method this r) w)) in
                       s = Some (Suc (length (store w))) \<and>
                       lookup (Suc (length (store w)))
                         (native_fires (length (invocations w)) (Failure e) w2)
                         = Some (Subscriber [] (Some e)))
               else lookup (length (store w))
                      (native_fires (length (invocations w)) (Failure e)
                         (snd (perform (Method this r) w))) = Some (Promise (Rejected e) []))
          | Some x \<Rightarrow>
              (if spec_returns_stream r
               then (let (s, w2) = subscribe (length (store w)) (snd (perform (Method this r) w)) in
                       s = Some (Suc (length (store w))) \<and>
                       lookup (Suc (length (store w))) w2 = Some (Subscriber [] (Some x)))
               else lookup (length (store w)) (snd (perform (Method this r) w))
                      = Some (Promise (Rejected x) [])))"
proof -
  let ?c = "OnHandle (cordovaInstanceHandle this) (spec_native_call r)"
  have a: "perform EnableDebugLogging w =
           (ReturnsVoid,
            w\<lparr>store := store w @ [Promise Pending []],
              invocations := invocations w @
                [\<lparr>call = OnPlugin Plugin_enableDebugLogging,
                  success_cb = ResolveWith (length (store w)),
                  error_cb = RejectWith (length (store w))\<rparr>]\<rparr>)"
    by (simp add: enableDebugLogging_def HyperTrackPlugin_stub_world)
  have b: "native_fires (length (invocations w)) (Failure e) (snd (perform EnableDebugLogging w)) =
           (snd (perform EnableDebugLogging w))\<lparr>store := store w @ [Promise (Rejected e) []]\<rparr>"
    unfolding a using assms
    by (simp add: native_fires_def reject_fresh drain_quiescent)
  have c: "fst (perform (Initialize publishableKey) w) = ReturnsRef (length (store w))"
    by (simp add: initialize_world)
  have d: "lookup (length (store w))
           (native_fires (length (invocations w)) (Failure e)
              (snd (perform (Initialize publishableKey) w))) = Some (Promise (Rejected e) [])"
    using initialize_failure [OF assms, of e publishableKey]
    by (simp add: lookup_last_but_one)
  have f: "fst (perform GetBlockers w) = ReturnsRef (length (store w))"
    by (simp add: getBlockers_def HyperTrackPlugin_stub_world)
  have g: "lookup (length (store w))
           (native_fires (length (invocations w)) (Failure e) (snd (perform GetBlockers w)))
           = Some (Promise (Rejected e) [])"
    using assms
    by (simp add: getBlockers_def HyperTrackPlugin_stub_world native_fires_def reject_fresh
          drain_quiescent lookup_last)
  have h: "fst (perform (Method this r) w) = ReturnsRef (length (store w))"
    by (simp add: fst_call_method)
  have i: "lookup (length (store w))
             (native_fires (length (invocations w)) (Failure e)
                (snd (perform (Method this r) w))) = Some (Promise (Rejected e) [])"
    if "\<not> spec_returns_stream r" and "call_throws ?c w = None"
    using that assms
    by (simp add: call_method_promise native_fires_def reject_fresh drain_quiescent lookup_last)
  have i': "lookup (length (store w)) (snd (perform (Method this r) w))
              = Some (Promise (Rejected x) [])"
    if "\<not> spec_returns_stream r" and "call_throws ?c w = Some x" for x
    using that by (simp add: call_method_promise_throws lookup_last)
  have j: "(let (s, w2) = subscribe (length (store w)) (snd (perform (Method this r) w)) in
                  s = Some (Suc (length (store w))) \<and>
                  lookup (Suc (length (store w)))
                    (native_fires (length (invocations w)) (Failure e) w2)
                    = Some (Subscriber [] (Some e)))"
    if "spec_returns_stream r" and n: "call_throws ?c w = None"
  proof -
    let ?o = "Observable (Listen (cordovaInstanceHandle this) (spec_native_call r))"
    let ?entry = "\<lparr>call = OnHandle (cordovaInstanceHandle this) (spec_native_call r),
                    success_cb = ObserverNext (Suc (length (store w))),
                    error_cb = ObserverError (Suc (length (store w)))\<rparr>"
    have "error_cb ?entry = ObserverError (length (store w @ [?o]))" by simp
    from subscriber_error [OF assms this, where ivs = "invocations w" and e = e and ds = "[]"]
    have "native_fires (length (invocations w)) (Failure e)
            (w\<lparr>store := store w @ [?o, Subscriber [] None],
               invocations := invocations w @ [?entry]\<rparr>) =
          w\<lparr>store := store w @ [?o, Subscriber [] (Some e)],
            invocations := invocations w @ [?entry]\<rparr>"
      by simp
    with that(1) show ?thesis
      using subscribe_observable [OF n, where xs = "store w"]
      by (simp add: call_method_stream lookup_second)
  qed
  have j': "(let (s, w2) = subscribe (length (store w)) (snd (perform (Method this r) w)) in
                  s = Some (Suc (length (store w))) \<and>
                  lookup (Suc (length (store w))) w2 = Some (Subscriber [] (Some x)))"
    if "spec_returns_stream r" and n: "call_throws ?c w = Some x" for x
    using that(1) subscribe_observable_throws [OF n, where xs = "store w"]
    by (simp add: call_method_stream lookup_second)
  have k: "(case call_throws ?c w of
            None \<Rightarrow>
              (if spec_returns_stream r
               then (let (s, w2) = subscribe (length (store w)) (snd (perform (Method this r) w)) in
                       s = Some (Suc (length (store w))) \<and>
                       lookup (Suc (length (store w)))
                         (native_fires (length (invocations w)) (Failure e) w2)
                         = Some (Subscriber [] (Some e)))
               else lookup (length (store w))
                      (native_fires (length (invocations w)) (Failure e)
                         (snd (perform (Method this r) w))) = Some (Promise (Rejected e) []))
          | Some x \<Rightarrow>
              (if spec_returns_stream r
               then (let (s, w2) = subscribe (length (store w)) (snd (perform (Method this r) w)) in
                       s = Some (Suc (length (store w))) \<and>
                       lookup (Suc (length (store w))) w2 = Some (Subscriber [] (Some x)))
               else lookup (length (store w)) (snd (perform (Method this r) w))
                      = Some (Promise (Rejected x) [])))"
  proof (cases "call_throws ?c w")
    case None
    with i j show ?thesis by (cases "spec_returns_stream r") simp_all
  next
    case (Some x)
    with i' [of x] j' [of x] show ?thesis by (cases "spec_returns_stream r") simp_all
  qed
  from a b c d f g h k show ?thesis by blast
qed

text \<open>The theorem in the empty world, with \<open>getBlockers\<close> for comparison.\<close>

theorem enableDebugLogging_discards_promise_witness:
  "jobs empty_world = [] \<and>
   perform EnableDebugLogging empty_world =
     (ReturnsVoid,
      empty_world
        \<lparr>store := [Promise Pending []],
         invocations := [\<lparr>call = OnPlugin Plugin_enableDebugLogging,
                          success_cb = ResolveWith 0, error_cb = RejectWith 0\<rparr>]\<rparr>) \<and>
   native_fires 0 (Failure (ErrorObj (Error ''logging unavailable'')))
     (snd (perform EnableDebugLogging empty_world)) =
     empty_world
       \<lparr>store := [Promise (Rejected (ErrorObj (Error ''logging unavailable''))) []],
        invocations := [\<lparr>call = OnPlugin Plugin_enableDebugLogging,
                         success_cb = ResolveWith 0, error_cb = RejectWith 0\<rparr>]\<rparr> \<and>
   fst (perform GetBlockers empty_world) = ReturnsRef 0 \<and>
   lookup 0 (native_fires 0 (Failure (ErrorObj (Error ''logging unavailable'')))
               (snd (perform GetBlockers empty_world)))
     = Some (Promise (Rejected (ErrorObj (Error ''logging unavailable''))) [])"
proof -
  have q: "jobs empty_world = []" and st: "store empty_world = []"
    and iv: "invocations empty_world = []"
    by (simp_all add: empty_world_def)
  note t = enableDebugLogging_discards_promise [OF q,
             where e = "ErrorObj (Error ''logging unavailable'')"
               and publishableKey = "''pk_live_abc''"
               and this = "HyperTrack (NativeObject 7)" and r = GetDeviceId]
  note t1 = t [THEN conjunct1]
  note t2 = t [THEN conjunct2, THEN conjunct1]
  note t5 = t [THEN conjunct2, THEN conjunct2, THEN conjunct2, THEN conjunct2, THEN conjunct1]
  note t6 = t [THEN conjunct2, THEN conjunct2, THEN conjunct2, THEN conjunct2, THEN conjunct2,
               THEN conjunct1]
  from t1 have a: "perform EnableDebugLogging empty_world =
     (ReturnsVoid,
      empty_world
        \<lparr>store := [Promise Pending []],
         invocations := [\<lparr>call = OnPlugin Plugin_enableDebugLogging,
                          success_cb = ResolveWith 0, error_cb = RejectWith 0\<rparr>]\<rparr>)"
    by (simp add: st iv)
  from t2 have b: "native_fires 0 (Failure (ErrorObj (Error ''logging unavailable'')))
     (snd (perform EnableDebugLogging empty_world)) =
     empty_world
       \<lparr>store := [Promise (Rejected (ErrorObj (Error ''logging unavailable''))) []],
        invocations := [\<lparr>call = OnPlugin Plugin_enableDebugLogging,
                         success_cb = ResolveWith 0, error_cb = RejectWith 0\<rparr>]\<rparr>"
    unfolding a by (simp add: st iv)
  from t5 have c: "fst (perform GetBlockers empty_world) = ReturnsRef 0"
    by (simp add: st)
  from t6 have d: "lookup 0 (native_fires 0 (Failure (ErrorObj (Error ''logging unavailable'')))
               (snd (perform GetBlockers empty_world)))
     = Some (Promise (Rejected (ErrorObj (Error ''logging unavailable''))) [])"
    by (simp add: st iv)
  from q a b c d show ?thesis by blast
qed

end
